theory Spec2Isabelle
  imports Main
begin

section \<open>The add engine: data model\<close>

text \<open>
  The development embeds the class \<open>AddComponents\<close> with its two module-level helpers
  \<open>validatePaths\<close> and \<open>validateNoDuplicateIds\<close>. Everything the class imports from
  other modules (filesystem, path library, glob and ignore matching, the identifier
  service, the in-memory index \<open>BitMap\<close>) is not part of the modelled source and enters
  as a parameter: a field of one of the records \<open>sys_env\<close>, \<open>id_env\<close>, \<open>index_env\<close>
  below. A collaborator is a function of its arguments that returns: the working tree
  does not change during a run, and only the code of the class throws.
\<close>

datatype origin = AUTHORED | IMPORTED | NESTED

text \<open>\<open>ComponentMapFile\<close>: the three properties every entry is created with.\<close>

record component_map_file =
  relativePath :: string
  test :: bool
  name :: string

text \<open>The part of a \<open>ComponentMap\<close> (a record of the index) that the class reads.\<close>

record component_map =
  origin :: origin
  cmRootDir :: "string option"
  cmFiles :: "component_map_file list"

text \<open>
  \<open>AddedComponent\<close>. \<open>componentId\<close> is optional in the model because
  \<open>addOneComponent\<close> returns its local \<open>finalBitId\<close>, which is still unassigned when
  no path was resolved and no id was entered.
\<close>

record 'id added_component =
  componentId :: "'id option"
  files :: "component_map_file list"
  mainFile :: "string option"
  rootDir :: "string option"

record add_result =
  resId :: string
  resFiles :: "component_map_file list"

record add_action_results =
  addedComponents :: "add_result list"
  resWarnings :: "string \<rightharpoonup> string list"

text \<open>
  Every \<open>throw\<close> of the source (\<open>NamespaceError\<close> is the plain \<open>Error\<close> thrown for an
  identifier held by a nested record), and the TypeError of a property read on
  \<open>undefined\<close> or of \<open>path.relative\<close> given \<open>undefined\<close>.
\<close>

datatype 'id error =
    PathsNotExist "string list"
  | NoFiles "string list"
  | EmptyDirectory
  | DuplicateIds "(string \<times> 'id added_component list) list"
  | MissingComponentIdForImportedComponent string
  | IncorrectIdForImportedComponent string string
  | NamespaceError string
  | TypeError

subsection \<open>JavaScript values\<close>

text \<open>Truthiness of an optional string: \<open>undefined\<close> and the empty string are falsy.\<close>

definition truthy :: "string option \<Rightarrow> bool" where
  "truthy s = (case s of None \<Rightarrow> False | Some x \<Rightarrow> x \<noteq> [])"

text \<open>\<open>a || b\<close> on optional strings.\<close>

definition orElse :: "string option \<Rightarrow> string option \<Rightarrow> string option" where
  "orElse a b = (if truthy a then a else b)"

text \<open>
  A plain object with string keys is an association list in insertion order with
  distinct keys. \<open>Object.keys\<close> lists the keys that are array indices first, in
  ascending numeric order, then the other keys in insertion order.
\<close>

type_synonym 'v obj = "(string \<times> 'v) list"

definition isDigit :: "char \<Rightarrow> bool" where
  "isDigit c = (c \<in> set ''0123456789'')"

definition indexValue :: "string \<Rightarrow> nat" where
  "indexValue s = foldl (\<lambda>n c. 10 * n + (of_char c - 48)) 0 s"

definition isArrayIndex :: "string \<Rightarrow> bool" where
  "isArrayIndex s =
     (s \<noteq> [] \<and> list_all isDigit s \<and> (s = ''0'' \<or> hd s \<noteq> CHR ''0'')
      \<and> indexValue s < 4294967295)"

definition keyOrder :: "string list \<Rightarrow> string list" where
  "keyOrder ks = sort_key indexValue (filter isArrayIndex ks) @ filter (\<lambda>k. \<not> isArrayIndex k) ks"

definition objectKeys :: "'v obj \<Rightarrow> string list" where
  "objectKeys ob = keyOrder (map fst ob)"

fun objSet :: "'v obj \<Rightarrow> string \<Rightarrow> 'v \<Rightarrow> 'v obj" where
  "objSet [] k v = [(k, v)]"
| "objSet ((k', v') # ob) k v = (if k' = k then (k, v) # ob else (k', v') # objSet ob k v)"

definition objDelete :: "'v obj \<Rightarrow> string \<Rightarrow> 'v obj" where
  "objDelete ob k = filter (\<lambda>kv. fst kv \<noteq> k) ob"

text \<open>\<open>R.uniq\<close> and lodash \<open>unionBy\<close>/\<open>groupBy\<close> keep first occurrences.\<close>

fun uniqBy :: "('a \<Rightarrow> 'k) \<Rightarrow> 'k list \<Rightarrow> 'a list \<Rightarrow> 'a list" where
  "uniqBy f seen [] = []"
| "uniqBy f seen (x # xs) =
     (if f x \<in> set seen then uniqBy f seen xs else x # uniqBy f (f x # seen) xs)"

definition uniq :: "string list \<Rightarrow> string list" where
  "uniq xs = uniqBy (\<lambda>x. x) [] xs"

definition unionBy :: "('a \<Rightarrow> 'k) \<Rightarrow> 'a list \<Rightarrow> 'a list \<Rightarrow> 'a list" where
  "unionBy f xs ys = uniqBy f [] (xs @ ys)"

text \<open>\<open>groupby(xs, key)\<close>: an object from each key to the elements carrying it, in order.\<close>

definition groupby :: "('a \<Rightarrow> string) \<Rightarrow> 'a list \<Rightarrow> 'a list obj" where
  "groupby f xs = map (\<lambda>k. (k, filter (\<lambda>x. f x = k) xs)) (uniq (map f xs))"

subsection \<open>The collaborators\<close>

datatype glob_options = NoOptions | IgnoreOpt "string list" | CwdNodir string

type_synonym file_info = "(string \<times> string) list"

text \<open>
  Filesystem, path library, the utilities of \<open>utils\<close>, the constants and the consumer's
  configuration. \<open>ignoreFilter l\<close> is \<open>ignore().add(l).filter\<close>; \<open>splitSep s\<close> is
  \<open>s.split(path.sep)\<close>; \<open>matchesRegexPattern s\<close> is \<open>s.match(REGEX_PATTERN)\<close> being
  non-null; \<open>pathParseDir\<close> and \<open>pathParseName\<close> are the \<open>dir\<close> and \<open>name\<close> properties of
  \<open>path.parse\<close>.
\<close>

record sys_env =
  existsSync :: "string \<Rightarrow> bool"
  fsExistsSync :: "string \<Rightarrow> bool"
  isDir :: "string \<Rightarrow> bool"
  glob :: "string \<Rightarrow> glob_options \<Rightarrow> string list"
  calculateFileInfo :: "string \<Rightarrow> file_info"
  format :: "string \<Rightarrow> file_info \<Rightarrow> string"
  pathNormalizeToLinux :: "string \<Rightarrow> string"
  getPathRelativeToConsumer :: "string \<Rightarrow> string"
  consumerPath :: string
  hasDistTarget :: bool
  pathJoin :: "string \<Rightarrow> string \<Rightarrow> string"
  pathJoinLinux :: "string option \<Rightarrow> string \<Rightarrow> string \<Rightarrow> string"
  pathRelative :: "string \<Rightarrow> string \<Rightarrow> string"
  pathNormalize :: "string \<Rightarrow> string"
  pathResolve :: "string \<Rightarrow> string"
  pathBasename :: "string \<Rightarrow> string"
  pathDirname :: "string \<Rightarrow> string"
  pathParseDir :: "string \<Rightarrow> string"
  pathParseName :: "string \<Rightarrow> string"
  splitSep :: "string \<Rightarrow> string list"
  retrieveIgnoreList :: "string \<Rightarrow> string list"
  ignoreFilter :: "string list \<Rightarrow> string list \<Rightarrow> string list"
  arrayDiff :: "string list \<Rightarrow> string list \<Rightarrow> string list"
  getMissingTestFiles :: "string list \<Rightarrow> string list"
  isAutoGeneratedFile :: "string \<Rightarrow> bool"
  matchesRegexPattern :: "string \<Rightarrow> bool"
  DEFAULT_DIST_DIRNAME :: string

text \<open>The identifier service \<open>BitId\<close>.\<close>

record 'id id_env =
  parse :: "string \<Rightarrow> 'id"
  getValidBitId :: "string option \<Rightarrow> string option \<Rightarrow> 'id"
  toString :: "'id \<Rightarrow> string"
  toStringWithoutVersion :: "'id \<Rightarrow> string"

text \<open>
  The in-memory index \<open>BitMap\<close>, of abstract type \<open>'bm\<close>. \<open>getComponentLenient\<close> is
  \<open>getComponent(id, false, true)\<close>; \<open>getComponent\<close> is the call with one argument.
  \<open>reanchor bm id i p\<close> is the index after the assignment
  \<open>foundFile.relativePath = p\<close> to the \<open>i\<close>-th file entry of the record found for \<open>id\<close>:
  that entry is an object of the index, mutated in place.
\<close>

record ('id, 'bm) index_env =
  getComponent :: "'bm \<Rightarrow> string \<Rightarrow> component_map option"
  getComponentLenient :: "'bm \<Rightarrow> 'id option \<Rightarrow> component_map option"
  getComponentIdByPath :: "'bm \<Rightarrow> string \<Rightarrow> string option"
  getExistingComponentId :: "'bm \<Rightarrow> string \<Rightarrow> string option"
  getAllComponents :: "'bm \<Rightarrow> origin \<Rightarrow> component_map obj"
  addComponent :: "'bm \<Rightarrow> 'id added_component \<Rightarrow> origin \<Rightarrow> bool \<Rightarrow> 'bm \<times> component_map_file list"
  reanchor :: "'bm \<Rightarrow> 'id option \<Rightarrow> nat \<Rightarrow> string \<Rightarrow> 'bm"

record ('id, 'bm) env =
  sys :: sys_env
  ids :: "'id id_env"
  idx :: "('id, 'bm) index_env"

text \<open>
  The instance of \<open>AddComponents\<close>: the properties of \<open>AddProps\<close>, the fields
  assigned by the constructor and by \<open>add\<close>, and the index object it shares with the
  consumer. \<open>bitMap\<close> is the index in memory; \<open>written\<close> lists what \<open>bitMap.write()\<close>
  has flushed to storage so far, oldest first. The user's \<open>id\<close> is the field \<open>idStr\<close>.
\<close>

record 'bm add_components =
  bitMap :: 'bm
  written :: "'bm list"
  componentPaths :: "string list"
  idStr :: "string option"
  main :: "string option"
  namespace :: "string option"
  tests :: "string list"
  exclude :: "string list"
  override :: bool
  warnings :: "string \<rightharpoonup> string list"
  ignoreList :: "string list"

section \<open>The module-level helpers\<close>

text \<open>
  \<open>validatePaths\<close>: the \<open>forEach\<close> throws at the first path that does not exist, with
  that path alone in the list.
\<close>

fun validatePathsFrom :: "sys_env \<Rightarrow> bool obj \<Rightarrow> string list \<Rightarrow> 'id error + bool obj" where
  "validatePathsFrom se componentPathsStats [] = Inr componentPathsStats"
| "validatePathsFrom se componentPathsStats (componentPath # rest) =
     (if \<not> existsSync se componentPath then Inl (PathsNotExist [componentPath])
      else validatePathsFrom se (objSet componentPathsStats componentPath (isDir se componentPath)) rest)"

definition validatePaths :: "sys_env \<Rightarrow> string list \<Rightarrow> 'id error + bool obj" where
  "validatePaths se fileArray = validatePathsFrom se [] fileArray"

text \<open>The key lodash derives from the property \<open>componentId\<close>: its string conversion.\<close>

definition idKey :: "'id id_env \<Rightarrow> 'id added_component \<Rightarrow> string" where
  "idKey ie c = (case componentId c of None \<Rightarrow> ''undefined'' | Some i \<Rightarrow> toString ie i)"

definition validateNoDuplicateIds :: "'id id_env \<Rightarrow> 'id added_component list \<Rightarrow> 'id error + unit" where
  "validateNoDuplicateIds ie addComponents =
     (let newGroupedComponents = groupby (idKey ie) addComponents;
          duplicateIds = foldl (\<lambda>d key.
              (case map_of newGroupedComponents key of
                 None \<Rightarrow> d
               | Some g \<Rightarrow> if length g > 1 then objSet d key g else d))
            [] (objectKeys newGroupedComponents)
      in if duplicateIds \<noteq> [] then Inl (DuplicateIds duplicateIds) else Inr ())"

section \<open>The methods of the class\<close>

subsection \<open>getFilesAccordingToDsl\<close>

definition getFilesAccordingToDsl ::
  "('id, 'bm) env \<Rightarrow> 'bm add_components \<Rightarrow> string list \<Rightarrow> string list \<Rightarrow> string list" where
  "getFilesAccordingToDsl env self fs filesWithPotentialDsl =
     (let filesListAllMatches = map (\<lambda>dsl. map (\<lambda>file.
            (let fileInfo = calculateFileInfo (sys env) file;
                 generatedFile = format (sys env) dsl fileInfo;
                 matches = glob (sys env) generatedFile (IgnoreOpt (ignoreList self))
             in filter (fsExistsSync (sys env)) matches)) fs) filesWithPotentialDsl;
          filesListFlatten = concat (concat filesListAllMatches);
          filesListUnique = uniq filesListFlatten
      in map (\<lambda>file. pathNormalizeToLinux (sys env) (getPathRelativeToConsumer (sys env) file))
           filesListUnique)"

subsection \<open>addToBitMap\<close>

definition addToBitMap ::
  "('id, 'bm) env \<Rightarrow> 'bm add_components \<Rightarrow> 'id added_component
     \<Rightarrow> ('id error + add_result) \<times> 'bm add_components" where
  "addToBitMap env self component =
     (case addComponent (idx env) (bitMap self) component AUTHORED (override self) of
        (bm', componentMapFiles) \<Rightarrow>
          (case componentId component of
             None \<Rightarrow> (Inl TypeError, self\<lparr>bitMap := bm'\<rparr>)
           | Some i \<Rightarrow>
               (Inr \<lparr>resId = toString (ids env) i, resFiles = componentMapFiles\<rparr>,
                self\<lparr>bitMap := bm'\<rparr>)))"

subsection \<open>addOrUpdateComponentInBitMap\<close>

text \<open>
  What the callback of \<open>files.map\<close> returns for one file: \<open>None\<close> is \<open>null\<close>; \<open>Fresh f\<close>
  is the scanned entry itself; \<open>Found i\<close> is the \<open>i\<close>-th file object of the record found in
  the index, returned by reference, so that a later assignment to it shows in the result.
\<close>

datatype slot = Fresh component_map_file | Found nat

fun findIndex :: "('a \<Rightarrow> bool) \<Rightarrow> 'a list \<Rightarrow> nat option" where
  "findIndex p [] = None"
| "findIndex p (x # xs) = (if p x then Some 0 else map_option Suc (findIndex p xs))"

definition isImported :: "component_map option \<Rightarrow> component_map option \<Rightarrow> bool" where
  "isImported foundComponentFromBitMap existingComponentOfFile =
     ((case foundComponentFromBitMap of None \<Rightarrow> False | Some c \<Rightarrow> origin c = IMPORTED)
      \<or> (case existingComponentOfFile of None \<Rightarrow> False | Some c \<Rightarrow> origin c = IMPORTED))"

text \<open>\<open>existingIdOfFile && existingIdOfFile !== parsedBitId.toString()\<close>.\<close>

definition idOfFileIsDifferent ::
  "'id id_env \<Rightarrow> 'id option \<Rightarrow> string option \<Rightarrow> 'id error + bool" where
  "idOfFileIsDifferent ie parsedBitId existingIdOfFile =
     (case existingIdOfFile of
        None \<Rightarrow> Inr False
      | Some e \<Rightarrow>
          if e = [] then Inr False
          else (case parsedBitId of None \<Rightarrow> Inl TypeError | Some i \<Rightarrow> Inr (e \<noteq> toString ie i)))"

text \<open>\<open>existingIdOfFile ? this.bitMap.getComponent(existingIdOfFile) : undefined\<close>.\<close>

definition existingComponentOfFile ::
  "('id, 'bm) env \<Rightarrow> 'bm \<Rightarrow> string option \<Rightarrow> component_map option" where
  "existingComponentOfFile env bm existingIdOfFile =
     (case existingIdOfFile of
        None \<Rightarrow> None
      | Some e \<Rightarrow> if e = [] then None else getComponent (idx env) bm e)"

definition pushWarning :: "(string \<rightharpoonup> string list) \<Rightarrow> string \<Rightarrow> string \<Rightarrow> (string \<rightharpoonup> string list)" where
  "pushWarning w existingIdOfFile p =
     (case w existingIdOfFile of
        Some ps \<Rightarrow> w(existingIdOfFile \<mapsto> ps @ [p])
      | None \<Rightarrow> w(existingIdOfFile \<mapsto> [p]))"

text \<open>
  The callback of \<open>files.map\<close>. Its state is the instance (index and warnings) and
  \<open>foundFiles\<close>, the current content of \<open>foundComponentFromBitMap.files\<close>.
\<close>

definition reconcileFile ::
  "('id, 'bm) env \<Rightarrow> 'id option \<Rightarrow> component_map option \<Rightarrow> 'bm add_components
     \<Rightarrow> component_map_file list \<Rightarrow> component_map_file
     \<Rightarrow> ('id error + slot option) \<times> 'bm add_components \<times> component_map_file list" where
  "reconcileFile env parsedBitId foundComponentFromBitMap self foundFiles file =
     (if isAutoGeneratedFile (sys env) (pathJoin (sys env) (consumerPath (sys env)) (relativePath file))
      then (Inr None, self, foundFiles)
      else
        (let existingIdOfFile = getComponentIdByPath (idx env) (bitMap self) (relativePath file) in
         case idOfFileIsDifferent (ids env) parsedBitId existingIdOfFile of
           Inl e \<Rightarrow> (Inl e, self, foundFiles)
         | Inr different \<Rightarrow>
             if isImported foundComponentFromBitMap
                  (existingComponentOfFile env (bitMap self) existingIdOfFile)
             then
               (case idStr self of
                  None \<Rightarrow>
                    (case parsedBitId of
                       None \<Rightarrow> (Inl TypeError, self, foundFiles)
                     | Some i \<Rightarrow>
                         (Inl (MissingComponentIdForImportedComponent
                                (toStringWithoutVersion (ids env) i)), self, foundFiles))
                | Some uid \<Rightarrow>
                    if uid = [] then
                      (case parsedBitId of
                         None \<Rightarrow> (Inl TypeError, self, foundFiles)
                       | Some i \<Rightarrow>
                           (Inl (MissingComponentIdForImportedComponent
                                  (toStringWithoutVersion (ids env) i)), self, foundFiles))
                    else if different then
                      (case existingIdOfFile of
                         None \<Rightarrow> (Inl TypeError, self, foundFiles)
                       | Some e \<Rightarrow>
                           (Inl (IncorrectIdForImportedComponent
                                  (toStringWithoutVersion (ids env) (parse (ids env) e)) uid),
                            self, foundFiles))
                    else
                      (case foundComponentFromBitMap of
                         None \<Rightarrow> (Inr (Some (Fresh file)), self, foundFiles)
                       | Some fc \<Rightarrow>
                           (case cmRootDir fc of
                              None \<Rightarrow> (Inl TypeError, self, foundFiles)
                            | Some rd \<Rightarrow>
                                (let tempFile = pathRelative (sys env) rd (relativePath file) in
                                 case findIndex (\<lambda>fileObject. relativePath fileObject = tempFile) foundFiles of
                                   None \<Rightarrow> (Inr (Some (Fresh file)), self, foundFiles)
                                 | Some i \<Rightarrow>
                                     (let p = pathJoin (sys env) rd (relativePath (foundFiles ! i)) in
                                      (Inr (Some (Found i)),
                                       self\<lparr>bitMap := reanchor (idx env) (bitMap self) parsedBitId i p\<rparr>,
                                       foundFiles[i := (foundFiles ! i)\<lparr>relativePath := p\<rparr>]))))))
             else if different then
               (case existingIdOfFile of
                  None \<Rightarrow> (Inl TypeError, self, foundFiles)
                | Some e \<Rightarrow>
                    (Inr None,
                     self\<lparr>warnings := pushWarning (warnings self) e (relativePath file)\<rparr>,
                     foundFiles))
             else (Inr (Some (Fresh file)), self, foundFiles)))"

text \<open>\<open>files.map(...)\<close>: the callback on every file in order, stopping at a throw.\<close>

fun mapFiles ::
  "('id, 'bm) env \<Rightarrow> 'id option \<Rightarrow> component_map option \<Rightarrow> 'bm add_components
     \<Rightarrow> component_map_file list \<Rightarrow> component_map_file list
     \<Rightarrow> ('id error + slot option list) \<times> 'bm add_components \<times> component_map_file list" where
  "mapFiles env parsedBitId found self foundFiles [] = (Inr [], self, foundFiles)"
| "mapFiles env parsedBitId found self foundFiles (file # rest) =
     (case reconcileFile env parsedBitId found self foundFiles file of
        (Inl e, self1, foundFiles1) \<Rightarrow> (Inl e, self1, foundFiles1)
      | (Inr r, self1, foundFiles1) \<Rightarrow>
          (case mapFiles env parsedBitId found self1 foundFiles1 rest of
             (Inl e, self2, foundFiles2) \<Rightarrow> (Inl e, self2, foundFiles2)
           | (Inr rs, self2, foundFiles2) \<Rightarrow> (Inr (r # rs), self2, foundFiles2)))"

text \<open>\<open>.filter(file => file)\<close>, with the references read after the whole \<open>map\<close>.\<close>

definition keptFiles :: "component_map_file list \<Rightarrow> slot option list \<Rightarrow> component_map_file list" where
  "keptFiles foundFiles rs =
     concat (map (\<lambda>r. case r of
                        None \<Rightarrow> []
                      | Some (Fresh f) \<Rightarrow> [f]
                      | Some (Found i) \<Rightarrow> [foundFiles ! i]) rs)"

text \<open>\<open>foundComponentFromBitMap.files\<close> when the \<open>map\<close> starts (unused when nothing was found).\<close>

definition filesOfFound :: "component_map option \<Rightarrow> component_map_file list" where
  "filesOfFound foundComponentFromBitMap =
     (case foundComponentFromBitMap of None \<Rightarrow> [] | Some fc \<Rightarrow> cmFiles fc)"

definition addOrUpdateComponentInBitMap ::
  "('id, 'bm) env \<Rightarrow> 'bm add_components \<Rightarrow> 'id added_component
     \<Rightarrow> ('id error + add_result option) \<times> 'bm add_components" where
  "addOrUpdateComponentInBitMap env self component =
     (let parsedBitId = componentId component;
          foundComponentFromBitMap = getComponentLenient (idx env) (bitMap self) (componentId component);
          foundFiles = filesOfFound foundComponentFromBitMap
      in case mapFiles env parsedBitId foundComponentFromBitMap self foundFiles (files component) of
           (Inl e, self1, foundFiles1) \<Rightarrow> (Inl e, self1)
         | (Inr rs, self1, foundFiles1) \<Rightarrow>
             (let component1 = component\<lparr>files := keptFiles foundFiles1 rs\<rparr> in
              if files component1 = [] then (Inr None, self1)
              else (case addToBitMap env self1 component1 of
                      (Inl e, self2) \<Rightarrow> (Inl e, self2)
                    | (Inr r, self2) \<Rightarrow> (Inr (Some r), self2))))"

subsection \<open>removeExcludedFiles\<close>

text \<open>
  \<open>pathNormalizeToLinux\<close> hands an absent main file back as it is, and no list of
  strings includes \<open>undefined\<close>.
\<close>

definition mainFileExcluded :: "sys_env \<Rightarrow> string list \<Rightarrow> 'id added_component \<Rightarrow> bool" where
  "mainFileExcluded se excluded componentWithFiles =
     (case map_option (pathNormalizeToLinux se) (mainFile componentWithFiles) of
        None \<Rightarrow> False
      | Some m \<Rightarrow> m \<in> set excluded)"

definition resolvedExcludedFiles ::
  "('id, 'bm) env \<Rightarrow> 'bm add_components \<Rightarrow> 'id added_component list \<Rightarrow> string list" where
  "resolvedExcludedFiles env self componentsWithFiles =
     getFilesAccordingToDsl env self
       (concat (map (\<lambda>x. map relativePath (files x)) componentsWithFiles)) (exclude self)"

definition removeExcludedFiles ::
  "('id, 'bm) env \<Rightarrow> 'bm add_components \<Rightarrow> 'id added_component list \<Rightarrow> 'id added_component list" where
  "removeExcludedFiles env self componentsWithFiles =
     (let excluded = resolvedExcludedFiles env self componentsWithFiles
      in map (\<lambda>componentWithFiles.
                if mainFileExcluded (sys env) excluded componentWithFiles
                then componentWithFiles\<lparr>files := []\<rparr>
                else componentWithFiles\<lparr>files :=
                       filter (\<lambda>key. relativePath key \<notin> set excluded) (files componentWithFiles)\<rparr>)
           componentsWithFiles)"

subsection \<open>_getIdAccordingToExistingComponent\<close>

definition getIdAccordingToExistingComponent ::
  "('id, 'bm) env \<Rightarrow> 'bm \<Rightarrow> string \<Rightarrow> 'id error + 'id" where
  "getIdAccordingToExistingComponent env bm currentId =
     (let existingComponentId = getExistingComponentId (idx env) bm currentId in
      case existingComponentId of
        None \<Rightarrow> Inr (parse (ids env) currentId)
      | Some e \<Rightarrow>
          if e = [] then Inr (parse (ids env) currentId)
          else (case getComponent (idx env) bm e of
                  None \<Rightarrow> Inl TypeError
                | Some c \<Rightarrow> if origin c = NESTED then Inl (NamespaceError e)
                            else Inr (parse (ids env) e)))"

subsection \<open>_addMainFileToFiles\<close>

text \<open>
  One round of the \<open>forEach\<close>. The pattern substituted is the current value of the
  variable \<open>mainFile\<close>, which the round may overwrite; \<open>files\<close> may grow by one entry.
\<close>

definition mainFileStep ::
  "sys_env \<Rightarrow> component_map_file list \<times> string \<Rightarrow> component_map_file
     \<Rightarrow> component_map_file list \<times> string" where
  "mainFileStep se st file =
     (let fs = fst st; mainFile0 = snd st;
          fileInfo = calculateFileInfo se (relativePath file);
          generatedFile = format se mainFile0 fileInfo;
          foundFile = find (\<lambda>x. relativePath x = generatedFile) fs;
          mainFile1 = (case foundFile of None \<Rightarrow> mainFile0 | Some ff \<Rightarrow> relativePath ff)
      in if fsExistsSync se generatedFile \<and> foundFile = None
         then (fs @ [\<lparr>relativePath = generatedFile, test = False,
                      name = pathBasename se generatedFile\<rparr>], generatedFile)
         else (fs, mainFile1))"

text \<open>
  \<open>forEach\<close> visits the entries present when it starts; the entries pushed meanwhile are
  seen by \<open>R.find\<close> only.
\<close>

definition mainFileLoop ::
  "sys_env \<Rightarrow> component_map_file list \<Rightarrow> string \<Rightarrow> component_map_file list \<times> string" where
  "mainFileLoop se fs mainFile0 = foldl (mainFileStep se) (fs, mainFile0) fs"

definition addMainFileToFiles ::
  "('id, 'bm) env \<Rightarrow> 'bm add_components \<Rightarrow> component_map_file list
     \<Rightarrow> component_map_file list \<times> string option" where
  "addMainFileToFiles env self fs =
     (case main self of
        None \<Rightarrow> (fs, None)
      | Some m \<Rightarrow>
          (let st = (if m \<noteq> [] \<and> matchesRegexPattern (sys env) m
                     then mainFileLoop (sys env) fs m else (fs, m));
               fs1 = fst st; mainFile1 = snd st
           in if mainFile1 = [] then (fs1, None)
              else
                (let mainFileRelativeToConsumer = getPathRelativeToConsumer (sys env) mainFile1;
                     mainPath = pathJoin (sys env) (consumerPath (sys env)) mainFileRelativeToConsumer
                 in if fsExistsSync (sys env) mainPath then (fs1, Some mainFileRelativeToConsumer)
                    else (fs1, Some mainFile1))))"

subsection \<open>_mergeTestFilesWithFiles\<close>

definition mergeTestFilesWithFiles ::
  "('id, 'bm) env \<Rightarrow> 'bm add_components \<Rightarrow> component_map_file list \<Rightarrow> component_map_file list" where
  "mergeTestFilesWithFiles env self fs =
     (let testFilesArr = (if tests self \<noteq> []
                          then getFilesAccordingToDsl env self (map relativePath fs) (tests self)
                          else []);
          resolvedTestFiles = map (\<lambda>testFile. \<lparr>relativePath = testFile, test = True,
                                                name = pathBasename (sys env) testFile\<rparr>) testFilesArr
      in unionBy relativePath resolvedTestFiles fs)"

subsection \<open>addOneComponent\<close>

text \<open>\<open>xs[xs.length - k]\<close>, which is \<open>undefined\<close> out of range.\<close>

definition fromEnd :: "'a list \<Rightarrow> nat \<Rightarrow> 'a option" where
  "fromEnd xs k = (if 1 \<le> k \<and> k \<le> length xs then Some (xs ! (length xs - k)) else None)"

text \<open>\<open>if (!finalBitId) finalBitId = this._getIdAccordingToExistingComponent(...)\<close>.\<close>

definition assignFinalBitId ::
  "('id, 'bm) env \<Rightarrow> 'bm \<Rightarrow> 'id option \<Rightarrow> 'id \<Rightarrow> 'id error + 'id option" where
  "assignFinalBitId env bm finalBitId idFromPath =
     (case finalBitId of
        Some i \<Rightarrow> Inr (Some i)
      | None \<Rightarrow>
          (case getIdAccordingToExistingComponent env bm (toString (ids env) idFromPath) of
             Inl e \<Rightarrow> Inl e
           | Inr i \<Rightarrow> Inr (Some i)))"

text \<open>
  The callback mapped over \<open>Object.keys(componentPathsStats)\<close>, for one path. It reads
  and may assign \<open>finalBitId\<close>, the variable shared by all the callbacks.
\<close>

definition resolveDirectory ::
  "('id, 'bm) env \<Rightarrow> 'bm add_components \<Rightarrow> bool obj \<Rightarrow> 'id option \<Rightarrow> string
     \<Rightarrow> 'id error + ('id added_component \<times> 'id option)" where
  "resolveDirectory env self componentPathsStats finalBitId componentPath =
     (let relativeComponentPath = getPathRelativeToConsumer (sys env) componentPath;
          absoluteComponentPath = pathResolve (sys env) componentPath;
          splitPath = splitSep (sys env) absoluteComponentPath;
          lastDir = fromEnd splitPath 1;
          nameSpaceOrDir = orElse (namespace self) (fromEnd splitPath 2);
          matches = glob (sys env) (pathJoin (sys env) relativeComponentPath ''**'')
                      (CwdNodir (consumerPath (sys env)));
          filteredMatches = ignoreFilter (sys env) (ignoreList self) matches
      in if filteredMatches = [] then Inl EmptyDirectory
         else
           (let fs0 = map (\<lambda>match. \<lparr>relativePath = pathNormalizeToLinux (sys env) match,
                                     test = False, name = pathBasename (sys env) match\<rparr>)
                        filteredMatches;
                fs1 = mergeTestFilesWithFiles env self fs0;
                fs2 = fst (addMainFileToFiles env self fs1);
                resolvedMainFile = snd (addMainFileToFiles env self fs1)
            in case assignFinalBitId env (bitMap self) finalBitId
                      (getValidBitId (ids env) nameSpaceOrDir lastDir) of
                 Inl e \<Rightarrow> Inl e
               | Inr finalBitId1 \<Rightarrow>
                   (let rootDir1 = (if length (objectKeys componentPathsStats) = 1
                                    then Some relativeComponentPath else None)
                    in Inr (\<lparr>componentId = finalBitId1, files = fs2,
                              mainFile = resolvedMainFile, rootDir = rootDir1\<rparr>, finalBitId1))))"

definition resolveFile ::
  "('id, 'bm) env \<Rightarrow> 'bm add_components \<Rightarrow> 'id option \<Rightarrow> string
     \<Rightarrow> 'id error + ('id added_component \<times> 'id option)" where
  "resolveFile env self finalBitId componentPath =
     (let resolvedPath = pathResolve (sys env) componentPath;
          relativeFilePath = getPathRelativeToConsumer (sys env) componentPath;
          dirName = (if pathParseDir (sys env) resolvedPath = []
                     then pathDirname (sys env) (pathResolve (sys env) componentPath)
                     else pathParseDir (sys env) resolvedPath);
          nameSpaceOrLastDir = orElse (namespace self) (fromEnd (splitSep (sys env) dirName) 1)
      in case assignFinalBitId env (bitMap self) finalBitId
                (getValidBitId (ids env) nameSpaceOrLastDir (Some (pathParseName (sys env) resolvedPath))) of
           Inl e \<Rightarrow> Inl e
         | Inr finalBitId1 \<Rightarrow>
             (let fs0 = [\<lparr>relativePath = pathNormalizeToLinux (sys env) relativeFilePath,
                          test = False, name = pathBasename (sys env) relativeFilePath\<rparr>];
                  fs1 = mergeTestFilesWithFiles env self fs0;
                  fs2 = fst (addMainFileToFiles env self fs1);
                  resolvedMainFile = snd (addMainFileToFiles env self fs1)
              in Inr (\<lparr>componentId = finalBitId1, files = fs2,
                        mainFile = resolvedMainFile, rootDir = None\<rparr>, finalBitId1)))"

definition resolvePath ::
  "('id, 'bm) env \<Rightarrow> 'bm add_components \<Rightarrow> bool obj \<Rightarrow> 'id option \<Rightarrow> string
     \<Rightarrow> 'id error + ('id added_component \<times> 'id option)" where
  "resolvePath env self componentPathsStats finalBitId componentPath =
     (case map_of componentPathsStats componentPath of
        None \<Rightarrow> Inl TypeError
      | Some d \<Rightarrow>
          if d then resolveDirectory env self componentPathsStats finalBitId componentPath
          else resolveFile env self finalBitId componentPath)"

text \<open>
  The callbacks run one after the other here, in the order of the keys, and the first
  throw in that order is the one reported. In the source they are started together and
  \<open>Promise.all\<close> reports the rejection that happens first in time; nothing below depends
  on which of several failing paths is reported.
\<close>

fun resolvePaths ::
  "('id, 'bm) env \<Rightarrow> 'bm add_components \<Rightarrow> bool obj \<Rightarrow> 'id option \<Rightarrow> string list
     \<Rightarrow> 'id error + ('id added_component list \<times> 'id option)" where
  "resolvePaths env self componentPathsStats finalBitId [] = Inr ([], finalBitId)"
| "resolvePaths env self componentPathsStats finalBitId (componentPath # rest) =
     (case resolvePath env self componentPathsStats finalBitId componentPath of
        Inl e \<Rightarrow> Inl e
      | Inr (c, finalBitId1) \<Rightarrow>
          (case resolvePaths env self componentPathsStats finalBitId1 rest of
             Inl e \<Rightarrow> Inl e
           | Inr (cs, finalBitId2) \<Rightarrow> Inr (c # cs, finalBitId2)))"

text \<open>
  \<open>assignwith({}, ...group, (val1, val2) => val1 || val2)\<close>: property by property, the
  first truthy value, or the last value when none is truthy.
\<close>

definition assignOr :: "component_map_file \<Rightarrow> component_map_file \<Rightarrow> component_map_file" where
  "assignOr a b =
     \<lparr>relativePath = (if relativePath a \<noteq> [] then relativePath a else relativePath b),
      test = (test a \<or> test b),
      name = (if name a \<noteq> [] then name a else name b)\<rparr>"

text \<open>A group made by \<open>groupby\<close> is never empty; the first equation is not reached.\<close>

fun assignwith :: "component_map_file list \<Rightarrow> component_map_file" where
  "assignwith [] = \<lparr>relativePath = [], test = False, name = []\<rparr>"
| "assignwith (f # fs) = foldl assignOr f fs"

text \<open>\<open>componentsWithFiles.filter(componentWithFiles => componentWithFiles.files.length)\<close>.\<close>

definition withFiles :: "'id added_component list \<Rightarrow> 'id added_component list" where
  "withFiles componentsWithFiles = filter (\<lambda>c. length (files c) \<noteq> 0) componentsWithFiles"

text \<open>The end of \<open>addOneComponent\<close>, from that filter on.\<close>

definition collapseComponents ::
  "'id option \<Rightarrow> 'id added_component list \<Rightarrow> 'id added_component" where
  "collapseComponents finalBitId componentsWithFiles0 =
     (let componentsWithFiles = withFiles componentsWithFiles0 in
      if length componentsWithFiles = 0
      then \<lparr>componentId = finalBitId, files = [], mainFile = None, rootDir = None\<rparr>
      else if length componentsWithFiles = 1 then hd componentsWithFiles
      else
        (let fs = foldl (\<lambda>a b. a @ files b) [] componentsWithFiles;
             groupedComponents = groupby relativePath fs;
             uniqComponents = map (\<lambda>key. assignwith (case map_of groupedComponents key of
                                                        None \<Rightarrow> [] | Some g \<Rightarrow> g))
                                (objectKeys groupedComponents)
         in \<lparr>componentId = finalBitId, files = uniqComponents,
             mainFile = mainFile (hd componentsWithFiles),
             rootDir = rootDir (hd componentsWithFiles)\<rparr>))"

definition initialBitId ::
  "('id, 'bm) env \<Rightarrow> 'bm add_components \<Rightarrow> 'id error + 'id option" where
  "initialBitId env self =
     (case idStr self of
        None \<Rightarrow> Inr None
      | Some uid \<Rightarrow>
          if uid = [] then Inr None
          else (case getIdAccordingToExistingComponent env (bitMap self) uid of
                  Inl e \<Rightarrow> Inl e
                | Inr i \<Rightarrow> Inr (Some i)))"

definition addOneComponent ::
  "('id, 'bm) env \<Rightarrow> 'bm add_components \<Rightarrow> bool obj \<Rightarrow> 'id error + 'id added_component" where
  "addOneComponent env self componentPathsStats =
     (case initialBitId env self of
        Inl e \<Rightarrow> Inl e
      | Inr finalBitId0 \<Rightarrow>
          (case resolvePaths env self componentPathsStats finalBitId0 (objectKeys componentPathsStats) of
             Inl e \<Rightarrow> Inl e
           | Inr (componentsWithFiles, finalBitId) \<Rightarrow>
               Inr (collapseComponents finalBitId
                      (if exclude self \<noteq> [] then removeExcludedFiles env self componentsWithFiles
                       else componentsWithFiles))))"

subsection \<open>getIgnoreList\<close>

definition getIgnoreList :: "('id, 'bm) env \<Rightarrow> 'bm add_components \<Rightarrow> string list" where
  "getIgnoreList env self =
     (let ignoreList0 = retrieveIgnoreList (sys env) (consumerPath (sys env)) in
      if \<not> hasDistTarget (sys env) then
        (let importedComponents = getAllComponents (idx env) (bitMap self) IMPORTED;
             distDirsOfImportedComponents =
               map (\<lambda>key. pathJoinLinux (sys env)
                             (case map_of importedComponents key of
                                None \<Rightarrow> None | Some c \<Rightarrow> cmRootDir c)
                             (DEFAULT_DIST_DIRNAME (sys env)) ''**'')
                 (objectKeys importedComponents)
         in ignoreList0 @ distDirsOfImportedComponents)
      else ignoreList0)"

subsection \<open>add\<close>

text \<open>
  From the check of the test files to the end of the \<open>if\<close> that assigns
  \<open>componentPathsStats\<close>.
\<close>

definition resolveComponentPathsStats ::
  "('id, 'bm) env \<Rightarrow> 'bm add_components \<Rightarrow> 'id error + bool obj" where
  "resolveComponentPathsStats env self =
     (let missingFiles = getMissingTestFiles (sys env) (tests self) in
      if missingFiles \<noteq> [] then Inl (PathsNotExist missingFiles)
      else
        (let resolvedComponentPathsWithoutGitIgnore =
               concat (map (\<lambda>componentPath. glob (sys env) componentPath NoOptions) (componentPaths self));
             resolvedComponentPathsWithGitIgnore =
               ignoreFilter (sys env) (ignoreList self) resolvedComponentPathsWithoutGitIgnore;
             diff = arrayDiff (sys env) resolvedComponentPathsWithGitIgnore
                      resolvedComponentPathsWithoutGitIgnore
         in if tests self \<noteq> [] \<and> truthy (idStr self) \<and> resolvedComponentPathsWithoutGitIgnore = []
            then
              (let resolvedTestFiles =
                     concat (map (\<lambda>componentPath. glob (sys env) componentPath NoOptions) (tests self))
               in validatePaths (sys env) resolvedTestFiles)
            else if resolvedComponentPathsWithoutGitIgnore = []
            then Inl (PathsNotExist (componentPaths self))
            else if resolvedComponentPathsWithGitIgnore \<noteq> []
            then validatePaths (sys env) resolvedComponentPathsWithGitIgnore
            else Inl (NoFiles diff)))"

definition isMultipleComponents :: "'bm add_components \<Rightarrow> bool obj \<Rightarrow> bool" where
  "isMultipleComponents self componentPathsStats =
     (length (objectKeys componentPathsStats) > 1 \<and> \<not> truthy (idStr self))"

text \<open>\<open>componentPathsStats\<close> after the \<open>delete\<close> of every element of \<open>testToRemove\<close>.\<close>

definition testToRemove :: "('id, 'bm) env \<Rightarrow> 'bm add_components \<Rightarrow> bool obj \<Rightarrow> string list" where
  "testToRemove env self componentPathsStats =
     (if tests self \<noteq> []
      then getFilesAccordingToDsl env self (objectKeys componentPathsStats) (tests self)
      else [])"

definition removeTestPaths :: "('id, 'bm) env \<Rightarrow> 'bm add_components \<Rightarrow> bool obj \<Rightarrow> bool obj" where
  "removeTestPaths env self componentPathsStats =
     foldl (\<lambda>ob t. objDelete ob (pathNormalize (sys env) t)) componentPathsStats
       (testToRemove env self componentPathsStats)"

text \<open>\<open>{ [onePath]: componentPathsStats[onePath] }\<close>, for a key of the object.\<close>

definition oneComponentPathStat :: "bool obj \<Rightarrow> string \<Rightarrow> bool obj" where
  "oneComponentPathStat componentPathsStats onePath =
     (case map_of componentPathsStats onePath of None \<Rightarrow> [] | Some d \<Rightarrow> [(onePath, d)])"

text \<open>
  \<open>Promise.all\<close> over one \<open>addOneComponent\<close> per path, in the order of the keys (see the
  remark at \<open>resolvePaths\<close>).
\<close>

fun addEach ::
  "('id, 'bm) env \<Rightarrow> 'bm add_components \<Rightarrow> bool obj \<Rightarrow> string list
     \<Rightarrow> 'id error + 'id added_component list" where
  "addEach env self componentPathsStats [] = Inr []"
| "addEach env self componentPathsStats (onePath # rest) =
     (case addOneComponent env self (oneComponentPathStat componentPathsStats onePath) of
        Inl e \<Rightarrow> Inl e
      | Inr c \<Rightarrow>
          (case addEach env self componentPathsStats rest of
             Inl e \<Rightarrow> Inl e
           | Inr cs \<Rightarrow> Inr (c # cs)))"

text \<open>
  The body shared by the \<open>forEach\<close> of the first branch and by the second branch: a
  component with files is reconciled, and a result that is not \<open>null\<close> is pushed.
\<close>

definition reconcileComponent ::
  "('id, 'bm) env \<Rightarrow> 'bm add_components \<Rightarrow> add_result list \<Rightarrow> 'id added_component
     \<Rightarrow> ('id error + add_result list) \<times> 'bm add_components" where
  "reconcileComponent env self acc component =
     (if files component \<noteq> [] then
        (case addOrUpdateComponentInBitMap env self component of
           (Inl e, self1) \<Rightarrow> (Inl e, self1)
         | (Inr None, self1) \<Rightarrow> (Inr acc, self1)
         | (Inr (Some r), self1) \<Rightarrow> (Inr (acc @ [r]), self1))
      else (Inr acc, self))"

fun reconcileEach ::
  "('id, 'bm) env \<Rightarrow> 'bm add_components \<Rightarrow> add_result list \<Rightarrow> 'id added_component list
     \<Rightarrow> ('id error + add_result list) \<times> 'bm add_components" where
  "reconcileEach env self acc [] = (Inr acc, self)"
| "reconcileEach env self acc (component # rest) =
     (case reconcileComponent env self acc component of
        (Inl e, self1) \<Rightarrow> (Inl e, self1)
      | (Inr acc1, self1) \<Rightarrow> reconcileEach env self1 acc1 rest)"

text \<open>\<open>await this.bitMap.write()\<close>: the index in memory is flushed to storage.\<close>

definition bitMapWrite :: "'bm add_components \<Rightarrow> 'bm add_components" where
  "bitMapWrite self = self\<lparr>written := written self @ [bitMap self]\<rparr>"

text \<open>The two last statements of \<open>add\<close>.\<close>

definition writeAndReturn ::
  "'bm add_components \<Rightarrow> add_result list
     \<Rightarrow> ('id error + add_action_results) \<times> 'bm add_components" where
  "writeAndReturn self acc =
     (let self1 = bitMapWrite self
      in (Inr \<lparr>addedComponents = acc, resWarnings = warnings self1\<rparr>, self1))"

text \<open>The components resolved in the branch \<open>isMultipleComponents\<close>: the array \<open>added\<close>.\<close>

definition addedMultiple ::
  "('id, 'bm) env \<Rightarrow> 'bm add_components \<Rightarrow> bool obj \<Rightarrow> 'id error + 'id added_component list" where
  "addedMultiple env self componentPathsStats =
     (let componentPathsStats1 = removeTestPaths env self componentPathsStats
      in addEach env self componentPathsStats1 (objectKeys componentPathsStats1))"

definition addMultiple ::
  "('id, 'bm) env \<Rightarrow> 'bm add_components \<Rightarrow> bool obj
     \<Rightarrow> ('id error + add_action_results) \<times> 'bm add_components" where
  "addMultiple env self componentPathsStats =
     (case addedMultiple env self componentPathsStats of
        Inl e \<Rightarrow> (Inl e, self)
      | Inr added \<Rightarrow>
          (case validateNoDuplicateIds (ids env) added of
             Inl e \<Rightarrow> (Inl e, self)
           | Inr u \<Rightarrow>
               (case reconcileEach env self [] added of
                  (Inl e, self1) \<Rightarrow> (Inl e, self1)
                | (Inr acc, self1) \<Rightarrow> writeAndReturn self1 acc)))"

definition addSingle ::
  "('id, 'bm) env \<Rightarrow> 'bm add_components \<Rightarrow> bool obj
     \<Rightarrow> ('id error + add_action_results) \<times> 'bm add_components" where
  "addSingle env self componentPathsStats =
     (case addOneComponent env self componentPathsStats of
        Inl e \<Rightarrow> (Inl e, self)
      | Inr addedOne \<Rightarrow>
          (case reconcileComponent env self [] addedOne of
             (Inl e, self1) \<Rightarrow> (Inl e, self1)
           | (Inr acc, self1) \<Rightarrow> writeAndReturn self1 acc))"

text \<open>\<open>add\<close> from the line that computes \<open>isMultipleComponents\<close>.\<close>

definition addResolved ::
  "('id, 'bm) env \<Rightarrow> 'bm add_components \<Rightarrow> bool obj
     \<Rightarrow> ('id error + add_action_results) \<times> 'bm add_components" where
  "addResolved env self componentPathsStats =
     (if isMultipleComponents self componentPathsStats
      then addMultiple env self componentPathsStats
      else addSingle env self componentPathsStats)"

definition add ::
  "('id, 'bm) env \<Rightarrow> 'bm add_components
     \<Rightarrow> ('id error + add_action_results) \<times> 'bm add_components" where
  "add env self0 =
     (let self = self0\<lparr>ignoreList := getIgnoreList env self0\<rparr>
      in case resolveComponentPathsStats env self of
           Inl e \<Rightarrow> (Inl e, self)
         | Inr componentPathsStats \<Rightarrow> addResolved env self componentPathsStats)"

section \<open>A small working tree\<close>

text \<open>
  Concrete collaborators, used to run the definitions: a tracking root \<open>/w\<close>, paths
  written relative to it with \<open>/\<close>, identifiers that are their own string, an index that
  is a list of records by identifier, and patterns whose only placeholder is a leading
  \<open>{FILE_NAME}\<close>, standing for the path up to its first dot.
\<close>

definition baseName :: "string \<Rightarrow> string" where
  "baseName p = rev (takeWhile (\<lambda>c. c \<noteq> CHR ''/'') (rev p))"

definition dirName :: "string \<Rightarrow> string" where
  "dirName p = rev (drop 1 (dropWhile (\<lambda>c. c \<noteq> CHR ''/'') (rev p)))"

definition fileName :: "string \<Rightarrow> string" where
  "fileName p = takeWhile (\<lambda>c. c \<noteq> CHR ''.'') p"

fun splitSlash :: "string \<Rightarrow> string \<Rightarrow> string list" where
  "splitSlash acc [] = [rev acc]"
| "splitSlash acc (c # cs) =
     (if c = CHR ''/'' then rev acc # splitSlash [] cs else splitSlash (c # acc) cs)"

definition sysOf :: "string list \<Rightarrow> string list \<Rightarrow> (string \<times> string list) list \<Rightarrow> sys_env" where
  "sysOf disk dirs tree =
     \<lparr>existsSync = (\<lambda>p. p \<in> set disk \<or> p \<in> set dirs),
      fsExistsSync = (\<lambda>p. p \<in> set disk \<or> p \<in> set dirs),
      isDir = (\<lambda>p. p \<in> set dirs),
      glob = (\<lambda>p opts. case opts of
                CwdNodir c \<Rightarrow> (case map_of tree p of None \<Rightarrow> [] | Some fs \<Rightarrow> fs)
              | IgnoreOpt l \<Rightarrow> (if p \<in> set disk \<and> p \<notin> set l then [p] else [])
              | NoOptions \<Rightarrow> (if p \<in> set disk \<or> p \<in> set dirs then [p] else [])),
      calculateFileInfo = (\<lambda>p. [(''FILE_NAME'', fileName p)]),
      format = (\<lambda>d info. if take 11 d = ''{FILE_NAME}''
                  then (case map_of info ''FILE_NAME'' of None \<Rightarrow> d | Some v \<Rightarrow> v @ drop 11 d)
                  else d),
      pathNormalizeToLinux = (\<lambda>p. p),
      getPathRelativeToConsumer = (\<lambda>p. p),
      consumerPath = ''/w'',
      hasDistTarget = False,
      pathJoin = (\<lambda>a b. a @ ''/'' @ b),
      pathJoinLinux = (\<lambda>a b c. (case a of None \<Rightarrow> [] | Some x \<Rightarrow> x @ ''/'') @ b @ ''/'' @ c),
      pathRelative = (\<lambda>a b. if take (length a + 1) b = a @ ''/'' then drop (length a + 1) b else b),
      pathNormalize = (\<lambda>p. p),
      pathResolve = (\<lambda>p. ''/w/'' @ p),
      pathBasename = baseName,
      pathDirname = dirName,
      pathParseDir = dirName,
      pathParseName = (\<lambda>p. fileName (baseName p)),
      splitSep = splitSlash [],
      retrieveIgnoreList = (\<lambda>p. []),
      ignoreFilter = (\<lambda>l ps. filter (\<lambda>p. p \<notin> set l) ps),
      arrayDiff = (\<lambda>a b. filter (\<lambda>p. p \<notin> set a) b),
      getMissingTestFiles = (\<lambda>ts. []),
      isAutoGeneratedFile = (\<lambda>p. False),
      matchesRegexPattern = (\<lambda>s. CHR ''{'' \<in> set s),
      DEFAULT_DIST_DIRNAME = ''dist''\<rparr>"

definition ids0 :: "string id_env" where
  "ids0 =
     \<lparr>parse = (\<lambda>s. s),
      getValidBitId = (\<lambda>ns n. (case ns of None \<Rightarrow> [] | Some x \<Rightarrow> x) @ ''/''
                                @ (case n of None \<Rightarrow> [] | Some x \<Rightarrow> x)),
      toString = (\<lambda>i. i),
      toStringWithoutVersion = (\<lambda>i. i)\<rparr>"

type_synonym index0 = "(string \<times> component_map) list"

text \<open>The paths a record owns: its files, under its root directory when it has one.\<close>

definition ownedPaths :: "component_map \<Rightarrow> string list" where
  "ownedPaths c =
     map (\<lambda>f. case cmRootDir c of None \<Rightarrow> relativePath f
               | Some r \<Rightarrow> r @ ''/'' @ relativePath f) (cmFiles c)"

definition idx0 :: "(string, index0) index_env" where
  "idx0 =
     \<lparr>getComponent = (\<lambda>bm s. map_of bm s),
      getComponentLenient = (\<lambda>bm i. case i of None \<Rightarrow> None | Some s \<Rightarrow> map_of bm s),
      getComponentIdByPath = (\<lambda>bm p. map_option fst (find (\<lambda>kv. p \<in> set (ownedPaths (snd kv))) bm)),
      getExistingComponentId = (\<lambda>bm s. if s \<in> set (map fst bm) then Some s else None),
      getAllComponents = (\<lambda>bm og. filter (\<lambda>kv. origin (snd kv) = og) bm),
      addComponent = (\<lambda>bm c og ov. case componentId c of
                        None \<Rightarrow> (bm, files c)
                      | Some i \<Rightarrow> (objSet bm i \<lparr>origin = og, cmRootDir = rootDir c,
                                                 cmFiles = files c\<rparr>, files c)),
      reanchor = (\<lambda>bm i k p. bm)\<rparr>"

definition envOf ::
  "string list \<Rightarrow> string list \<Rightarrow> (string \<times> string list) list \<Rightarrow> (string, index0) env" where
  "envOf disk dirs tree = \<lparr>sys = sysOf disk dirs tree, ids = ids0, idx = idx0\<rparr>"

definition selfOf ::
  "index0 \<Rightarrow> string list \<Rightarrow> string option \<Rightarrow> string list \<Rightarrow> index0 add_components" where
  "selfOf bm ps i ts =
     \<lparr>bitMap = bm, written = [], componentPaths = ps, idStr = i, main = None,
      namespace = None, tests = ts, exclude = [], override = False,
      warnings = Map.empty, ignoreList = []\<rparr>"

definition fileOf :: "string \<Rightarrow> bool \<Rightarrow> component_map_file" where
  "fileOf p t = \<lparr>relativePath = p, test = t, name = baseName p\<rparr>"

definition componentOf :: "string \<Rightarrow> string list \<Rightarrow> string added_component" where
  "componentOf i ps =
     \<lparr>componentId = Some i, files = map (\<lambda>p. fileOf p False) ps, mainFile = None, rootDir = None\<rparr>"

text \<open>An index with an imported record rooted at \<open>c\<close> and an authored record.\<close>

definition indexImported :: index0 where
  "indexImported =
     [(''imp/c'', \<lparr>origin = IMPORTED, cmRootDir = Some ''c'', cmFiles = [fileOf ''x.js'' False]\<rparr>),
      (''x/y'', \<lparr>origin = AUTHORED, cmRootDir = None, cmFiles = [fileOf ''a.js'' False]\<rparr>)]"

text \<open>
  The statement about storage: a run that failed has flushed nothing, a run that
  returned has flushed once, and what it flushed is the index it ends with.
\<close>

definition flushedOnce :: "'bm add_components \<Rightarrow> ('e + 'a) \<times> 'bm add_components \<Rightarrow> bool" where
  "flushedOnce self out =
     (case fst out of
        Inl e \<Rightarrow> written (snd out) = written self
      | Inr res \<Rightarrow> written (snd out) = written self @ [bitMap (snd out)])"

text \<open>
  The substitution of the pattern \<open>pat\<close> against the file \<open>x\<close>:
  \<open>format(pat, calculateFileInfo(x.relativePath))\<close>.
\<close>

definition substituted :: "sys_env \<Rightarrow> string \<Rightarrow> component_map_file \<Rightarrow> string" where
  "substituted se pat x = format se pat (calculateFileInfo se (relativePath x))"

text \<open>Instances and resolved groups of the small working tree.\<close>

definition selfWithMain :: "string \<Rightarrow> index0 add_components" where
  "selfWithMain m = (selfOf [] [] None [])\<lparr>main := Some m\<rparr>"

definition selfExcluding :: "string list \<Rightarrow> index0 add_components" where
  "selfExcluding ex = (selfOf [] [] (Some ''x/y'') [])\<lparr>exclude := ex\<rparr>"

definition groupOf :: "string \<Rightarrow> string list \<Rightarrow> string \<Rightarrow> string added_component" where
  "groupOf i ps m = (componentOf i ps)\<lparr>mainFile := Some m\<rparr>"

text \<open>
  What \<open>rootDir\<close> is for a component with the files \<open>fs\<close> resolved from the path \<open>p\<close>
  alone, a key of \<open>stats\<close>: the path relative to the tracking root when \<open>p\<close> is a
  directory and the component kept files, nothing otherwise.
\<close>

definition rootDirOf :: "sys_env \<Rightarrow> bool obj \<Rightarrow> string \<Rightarrow> component_map_file list \<Rightarrow> string option" where
  "rootDirOf se stats p fs =
     (if map_of stats p = Some True \<and> fs \<noteq> [] then Some (getPathRelativeToConsumer se p) else None)"

text \<open>A working tree with two directories of one file each.\<close>

definition envTwoDirs :: "(string, index0) env" where
  "envTwoDirs = envOf [''d/a.js'', ''e/b.js''] [''d'', ''e'']
                  [(''d/**'', [''d/a.js'']), (''e/**'', [''e/b.js''])]"

definition dirComponent :: "string \<Rightarrow> string \<Rightarrow> string \<Rightarrow> string added_component" where
  "dirComponent i d p =
     \<lparr>componentId = Some i, files = [fileOf p False], mainFile = None, rootDir = Some d\<rparr>"

text \<open>The first non-empty string of a list, or the empty string: a chain of \<open>||\<close>.\<close>

definition firstTruthy :: "string list \<Rightarrow> string" where
  "firstTruthy xs = (case find (\<lambda>s. s \<noteq> []) xs of None \<Rightarrow> [] | Some s \<Rightarrow> s)"

text \<open>A working tree with a source file and its test file, both entered as paths.\<close>

definition envSourceAndTest :: "(string, index0) env" where
  "envSourceAndTest = envOf [''b_t.js'', ''b.js''] [] []"

definition selfSourceAndTest :: "string option \<Rightarrow> index0 add_components" where
  "selfSourceAndTest i = selfOf [] [''b_t.js'', ''b.js''] i [''{FILE_NAME}_t.js'']"

definition groupWith :: "string \<Rightarrow> component_map_file list \<Rightarrow> string added_component" where
  "groupWith i fs = \<lparr>componentId = Some i, files = fs, mainFile = None, rootDir = None\<rparr>"


section \<open>Evaluating the collaborators of the small working tree\<close>

lemma envOf_simps:
  "sys (envOf disk dirs tree) = sysOf disk dirs tree"
  "ids (envOf disk dirs tree) = ids0"
  "idx (envOf disk dirs tree) = idx0"
  by (simp_all add: envOf_def)

lemma sysOf_simps:
  "existsSync (sysOf disk dirs tree) p = (p \<in> set disk \<or> p \<in> set dirs)"
  "fsExistsSync (sysOf disk dirs tree) p = (p \<in> set disk \<or> p \<in> set dirs)"
  "isDir (sysOf disk dirs tree) p = (p \<in> set dirs)"
  "glob (sysOf disk dirs tree) p (CwdNodir c) = (case map_of tree p of None \<Rightarrow> [] | Some fs \<Rightarrow> fs)"
  "glob (sysOf disk dirs tree) p (IgnoreOpt l) = (if p \<in> set disk \<and> p \<notin> set l then [p] else [])"
  "glob (sysOf disk dirs tree) p NoOptions = (if p \<in> set disk \<or> p \<in> set dirs then [p] else [])"
  "calculateFileInfo (sysOf disk dirs tree) p = [(''FILE_NAME'', fileName p)]"
  "format (sysOf disk dirs tree) d info =
     (if take 11 d = ''{FILE_NAME}''
      then (case map_of info ''FILE_NAME'' of None \<Rightarrow> d | Some v \<Rightarrow> v @ drop 11 d) else d)"
  "pathNormalizeToLinux (sysOf disk dirs tree) p = p"
  "getPathRelativeToConsumer (sysOf disk dirs tree) p = p"
  "consumerPath (sysOf disk dirs tree) = ''/w''"
  "hasDistTarget (sysOf disk dirs tree) = False"
  "pathJoin (sysOf disk dirs tree) a b = a @ ''/'' @ b"
  "pathJoinLinux (sysOf disk dirs tree) ao b c =
     (case ao of None \<Rightarrow> [] | Some x \<Rightarrow> x @ ''/'') @ b @ ''/'' @ c"
  "pathRelative (sysOf disk dirs tree) a b =
     (if take (length a + 1) b = a @ ''/'' then drop (length a + 1) b else b)"
  "pathNormalize (sysOf disk dirs tree) p = p"
  "pathResolve (sysOf disk dirs tree) p = ''/w/'' @ p"
  "pathBasename (sysOf disk dirs tree) p = baseName p"
  "pathDirname (sysOf disk dirs tree) p = dirName p"
  "pathParseDir (sysOf disk dirs tree) p = dirName p"
  "pathParseName (sysOf disk dirs tree) p = fileName (baseName p)"
  "splitSep (sysOf disk dirs tree) p = splitSlash [] p"
  "retrieveIgnoreList (sysOf disk dirs tree) p = []"
  "ignoreFilter (sysOf disk dirs tree) l ps = filter (\<lambda>p. p \<notin> set l) ps"
  "arrayDiff (sysOf disk dirs tree) xs ys = filter (\<lambda>p. p \<notin> set xs) ys"
  "getMissingTestFiles (sysOf disk dirs tree) ts = []"
  "isAutoGeneratedFile (sysOf disk dirs tree) p = False"
  "matchesRegexPattern (sysOf disk dirs tree) s = (CHR ''{'' \<in> set s)"
  "DEFAULT_DIST_DIRNAME (sysOf disk dirs tree) = ''dist''"
  by (simp_all add: sysOf_def)

lemma ids0_simps:
  "parse ids0 s = s"
  "getValidBitId ids0 ns n =
     (case ns of None \<Rightarrow> [] | Some x \<Rightarrow> x) @ ''/'' @ (case n of None \<Rightarrow> [] | Some x \<Rightarrow> x)"
  "toString ids0 i = i"
  "toStringWithoutVersion ids0 i = i"
  by (simp_all add: ids0_def)

lemma idx0_simps:
  "getComponent idx0 bm s = map_of bm s"
  "getComponentLenient idx0 bm io = (case io of None \<Rightarrow> None | Some s \<Rightarrow> map_of bm s)"
  "getComponentIdByPath idx0 bm p = map_option fst (find (\<lambda>kv. p \<in> set (ownedPaths (snd kv))) bm)"
  "getExistingComponentId idx0 bm s = (if s \<in> set (map fst bm) then Some s else None)"
  "getAllComponents idx0 bm og = filter (\<lambda>kv. origin (snd kv) = og) bm"
  "addComponent idx0 bm c og ov =
     (case componentId c of
        None \<Rightarrow> (bm, files c)
      | Some i \<Rightarrow> (objSet bm i \<lparr>origin = og, cmRootDir = rootDir c, cmFiles = files c\<rparr>, files c))"
  "reanchor idx0 bm io k p = bm"
  by (simp_all add: idx0_def)

lemma selfOf_simps:
  "bitMap (selfOf bm ps i ts) = bm"
  "written (selfOf bm ps i ts) = []"
  "componentPaths (selfOf bm ps i ts) = ps"
  "idStr (selfOf bm ps i ts) = i"
  "main (selfOf bm ps i ts) = None"
  "namespace (selfOf bm ps i ts) = None"
  "tests (selfOf bm ps i ts) = ts"
  "exclude (selfOf bm ps i ts) = []"
  "override (selfOf bm ps i ts) = False"
  "warnings (selfOf bm ps i ts) = Map.empty"
  "ignoreList (selfOf bm ps i ts) = []"
  by (simp_all add: selfOf_def)

lemma componentOf_simps:
  "componentId (componentOf i ps) = Some i"
  "files (componentOf i ps) = map (\<lambda>p. fileOf p False) ps"
  "mainFile (componentOf i ps) = None"
  "rootDir (componentOf i ps) = None"
  by (simp_all add: componentOf_def)

lemma fileOf_simps:
  "relativePath (fileOf p t) = p"
  "test (fileOf p t) = t"
  "name (fileOf p t) = baseName p"
  by (simp_all add: fileOf_def)

lemmas tree_simps = envOf_simps sysOf_simps ids0_simps idx0_simps selfOf_simps componentOf_simps
  fileOf_simps ownedPaths_def

section \<open>Path Validator\<close>

lemma validatePathsFrom_find:
  "find (\<lambda>p. \<not> existsSync se p) ps = Some p \<Longrightarrow> validatePathsFrom se acc ps = Inl (PathsNotExist [p])"
  by (induction ps arbitrary: acc) (auto split: if_splits)

text \<open>
  C8. The claim that \<open>PathsNotExist\<close> carries every path that does not exist fails:
  with \<open>a.js\<close> present and \<open>b.js\<close>, \<open>c.js\<close> absent, the error carries \<open>b.js\<close> alone.
\<close>

theorem validatePaths_full_list_counterexample:
  "\<not> existsSync (sysOf [''a.js''] [] []) ''b.js''
   \<and> \<not> existsSync (sysOf [''a.js''] [] []) ''c.js''
   \<and> validatePaths (sysOf [''a.js''] [] []) [''a.js'', ''b.js'', ''c.js'']
       = (Inl (PathsNotExist [''b.js'']) :: string error + bool obj)
   \<and> validatePaths (sysOf [''a.js''] [] []) [''a.js'', ''b.js'', ''c.js'']
       \<noteq> (Inl (PathsNotExist [''b.js'', ''c.js'']) :: string error + bool obj)"
  by (simp add: validatePaths_def sysOf_simps)

text \<open>
  C8, amended. For every list of paths with at least one path that does not exist,
  \<open>validatePaths\<close> fails with \<open>PathsNotExist\<close> carrying exactly one path: the first
  of the list that does not exist.
\<close>

theorem validatePaths_reports_first_missing:
  "find (\<lambda>p. \<not> existsSync se p) fileArray = Some p
     \<Longrightarrow> validatePaths se fileArray = Inl (PathsNotExist [p])"
  by (simp add: validatePaths_def validatePathsFrom_find)

theorem validatePaths_reports_first_missing_witness:
  "find (\<lambda>p. \<not> existsSync (sysOf [''a.js''] [] []) p) [''a.js'', ''b.js'', ''c.js''] = Some ''b.js''
   \<and> validatePaths (sysOf [''a.js''] [] []) [''a.js'', ''b.js'', ''c.js'']
       = (Inl (PathsNotExist [''b.js'']) :: string error + bool obj)"
proof -
  have h: "find (\<lambda>p. \<not> existsSync (sysOf [''a.js''] [] []) p) [''a.js'', ''b.js'', ''c.js'']
           = Some ''b.js''"
    by (simp add: sysOf_simps)
  show ?thesis
    using h validatePaths_reports_first_missing [OF h] by simp
qed

section \<open>Index Reconciler\<close>

lemma reconcileFile_frame:
  assumes "reconcileFile env cid found self ff file = (r, self1, ff1)"
  shows "written self1 = written self \<and> idStr self1 = idStr self"
  using assms
  by (auto simp: reconcileFile_def Let_def split: if_splits option.splits sum.splits)

lemma mapFiles_frame:
  "mapFiles env cid found self ff fs = (r, self1, ff1)
     \<Longrightarrow> written self1 = written self \<and> idStr self1 = idStr self"
proof (induction fs arbitrary: self ff r self1 ff1)
  case Nil
  then show ?case by simp
next
  case (Cons x rest)
  obtain r0 s0 f0 where step: "reconcileFile env cid found self ff x = (r0, s0, f0)"
    by (cases "reconcileFile env cid found self ff x") auto
  have fr0: "written s0 = written self \<and> idStr s0 = idStr self"
    using reconcileFile_frame [OF step] .
  show ?case
  proof (cases r0)
    case (Inl e)
    with Cons.prems step fr0 show ?thesis by simp
  next
    case (Inr x)
    obtain r1 s1 f1 where rec: "mapFiles env cid found s0 f0 rest = (r1, s1, f1)"
      by (cases "mapFiles env cid found s0 f0 rest") auto
    have fr1: "written s1 = written s0 \<and> idStr s1 = idStr s0"
      using Cons.IH [OF rec] .
    from Cons.prems step Inr rec have "self1 = s1"
      by (auto split: sum.splits)
    with fr0 fr1 show ?thesis by simp
  qed
qed

lemma mapFiles_append:
  "mapFiles env cid found self ff (xs @ ys) =
     (case mapFiles env cid found self ff xs of
        (Inl e, s, f) \<Rightarrow> (Inl e, s, f)
      | (Inr rs, s, f) \<Rightarrow>
          (case mapFiles env cid found s f ys of
             (Inl e, s', f') \<Rightarrow> (Inl e, s', f')
           | (Inr rs', s', f') \<Rightarrow> (Inr (rs @ rs'), s', f')))"
proof (induction xs arbitrary: self ff)
  case Nil
  show ?case by (simp split: prod.splits sum.splits)
next
  case (Cons x xs)
  show ?case
    by (simp add: Cons.IH split: prod.splits sum.splits)
qed

lemma mapFiles_fails_at:
  assumes pre: "mapFiles env cid found self ff pre = (Inr rs, self1, ff1)"
    and step: "reconcileFile env cid found self1 ff1 x = (Inl err, self2, ff2)"
  shows "fst (mapFiles env cid found self ff (pre @ x # post)) = Inl err"
  by (simp add: mapFiles_append pre step)

lemma addOrUpdate_fails_at:
  assumes "files component = pre @ x # post"
    and "mapFiles env (componentId component)
           (getComponentLenient (idx env) (bitMap self) (componentId component)) self
           (filesOfFound (getComponentLenient (idx env) (bitMap self) (componentId component))) pre
         = (Inr rs, self1, ff1)"
    and "reconcileFile env (componentId component)
           (getComponentLenient (idx env) (bitMap self) (componentId component)) self1 ff1 x
         = (Inl err, self2, ff2)"
  shows "fst (addOrUpdateComponentInBitMap env self component) = Inl err"
proof -
  have "fst (mapFiles env (componentId component)
           (getComponentLenient (idx env) (bitMap self) (componentId component)) self
           (filesOfFound (getComponentLenient (idx env) (bitMap self) (componentId component)))
           (files component)) = Inl err"
    using mapFiles_fails_at [OF assms(2) assms(3)] assms(1) by simp
  then show ?thesis
    by (auto simp: addOrUpdateComponentInBitMap_def Let_def split: prod.splits sum.splits)
qed

lemma idOfFileIsDifferent_total: "\<exists>d. idOfFileIsDifferent ie (Some i) ow = Inr d"
  by (cases ow) (auto simp: idOfFileIsDifferent_def)

lemma reconcileFile_missing_id:
  assumes "\<not> isAutoGeneratedFile (sys env) (pathJoin (sys env) (consumerPath (sys env)) (relativePath x))"
    and "isImported found (existingComponentOfFile env (bitMap self)
           (getComponentIdByPath (idx env) (bitMap self) (relativePath x)))"
    and "\<not> truthy (idStr self)"
  shows "reconcileFile env (Some i) found self ff x
         = (Inl (MissingComponentIdForImportedComponent (toStringWithoutVersion (ids env) i)), self, ff)"
proof -
  obtain d where d: "idOfFileIsDifferent (ids env) (Some i)
                       (getComponentIdByPath (idx env) (bitMap self) (relativePath x)) = Inr d"
    by (meson idOfFileIsDifferent_total)
  show ?thesis
    using assms d by (cases "idStr self") (simp_all add: reconcileFile_def Let_def truthy_def)
qed

lemma reconcileFile_incorrect_id:
  assumes "\<not> isAutoGeneratedFile (sys env) (pathJoin (sys env) (consumerPath (sys env)) (relativePath x))"
    and "getComponentIdByPath (idx env) (bitMap self) (relativePath x) = Some e"
    and "isImported found (existingComponentOfFile env (bitMap self) (Some e))"
    and "idStr self = Some uid" and "uid \<noteq> []"
    and "e \<noteq> []" and "e \<noteq> toString (ids env) i"
  shows "reconcileFile env (Some i) found self ff x
         = (Inl (IncorrectIdForImportedComponent
                  (toStringWithoutVersion (ids env) (parse (ids env) e)) uid), self, ff)"
  using assms
  by (simp add: reconcileFile_def Let_def idOfFileIsDifferent_def)

text \<open>
  C1. Take a candidate file that the \<open>map\<close> reaches (the files before it were processed
  without a throw), that is not skipped as auto-generated, and whose flag \<open>isImported\<close>
  is true: the record found for the component's identifier is \<open>IMPORTED\<close>, or the file's
  current owner is. Then the operation fails with
  \<open>MissingComponentIdForImportedComponent\<close> if the user entered no identifier, and with
  \<open>IncorrectIdForImportedComponent\<close> if an identifier was entered and the file's current
  owner identifier differs from the component's identifier.
\<close>

theorem imported_file_requires_matching_id:
  assumes fs: "files component = pre @ x # post"
    and cid: "componentId component = Some i"
    and found: "found = getComponentLenient (idx env) (bitMap self) (Some i)"
    and pre: "mapFiles env (Some i) found self (filesOfFound found) pre = (Inr rs, self1, ff1)"
    and auto: "\<not> isAutoGeneratedFile (sys env)
                   (pathJoin (sys env) (consumerPath (sys env)) (relativePath x))"
    and owner: "owner = getComponentIdByPath (idx env) (bitMap self1) (relativePath x)"
    and imported: "isImported found (existingComponentOfFile env (bitMap self1) owner)"
  shows "(\<not> truthy (idStr self) \<longrightarrow>
            fst (addOrUpdateComponentInBitMap env self component)
            = Inl (MissingComponentIdForImportedComponent (toStringWithoutVersion (ids env) i)))
       \<and> (idStr self = Some uid \<and> uid \<noteq> [] \<and> owner = Some e \<and> e \<noteq> [] \<and> e \<noteq> toString (ids env) i \<longrightarrow>
            fst (addOrUpdateComponentInBitMap env self component)
            = Inl (IncorrectIdForImportedComponent
                     (toStringWithoutVersion (ids env) (parse (ids env) e)) uid))"
proof -
  have same: "idStr self1 = idStr self"
    using mapFiles_frame [OF pre] by simp
  have pre': "mapFiles env (componentId component)
           (getComponentLenient (idx env) (bitMap self) (componentId component)) self
           (filesOfFound (getComponentLenient (idx env) (bitMap self) (componentId component))) pre
         = (Inr rs, self1, ff1)"
    using pre cid found by simp
  have missing: "fst (addOrUpdateComponentInBitMap env self component)
            = Inl (MissingComponentIdForImportedComponent (toStringWithoutVersion (ids env) i))"
    if "\<not> truthy (idStr self)"
  proof -
    have "reconcileFile env (Some i) found self1 ff1 x
          = (Inl (MissingComponentIdForImportedComponent (toStringWithoutVersion (ids env) i)), self1, ff1)"
      using reconcileFile_missing_id [of env x found self1 i ff1] auto imported owner that same
      by simp
    then show ?thesis
      using addOrUpdate_fails_at [OF fs pre'] cid found by simp
  qed
  have incorrect: "fst (addOrUpdateComponentInBitMap env self component)
            = Inl (IncorrectIdForImportedComponent
                     (toStringWithoutVersion (ids env) (parse (ids env) e)) uid)"
    if "idStr self = Some uid" "uid \<noteq> []" "owner = Some e" "e \<noteq> []" "e \<noteq> toString (ids env) i"
  proof -
    have "reconcileFile env (Some i) found self1 ff1 x
          = (Inl (IncorrectIdForImportedComponent
                  (toStringWithoutVersion (ids env) (parse (ids env) e)) uid), self1, ff1)"
      using reconcileFile_incorrect_id [of env x self1 e found uid i ff1] auto imported owner that same
      by simp
    then show ?thesis
      using addOrUpdate_fails_at [OF fs pre'] cid found by simp
  qed
  show ?thesis
    using missing incorrect by blast
qed

theorem imported_file_requires_matching_id_witness:
  "fst (addOrUpdateComponentInBitMap (envOf [] [] []) (selfOf indexImported [] None [])
          (componentOf ''imp/c'' [''c/x.js'']))
     = Inl (MissingComponentIdForImportedComponent ''imp/c'')
   \<and> fst (addOrUpdateComponentInBitMap (envOf [] [] []) (selfOf indexImported [] (Some ''x/y'') [])
          (componentOf ''x/y'' [''n.js'', ''c/x.js'']))
     = Inl (IncorrectIdForImportedComponent ''imp/c'' ''x/y'')"
proof -
  let ?env = "envOf [] [] []"
  let ?selfA = "selfOf indexImported [] None []"
  let ?selfB = "selfOf indexImported [] (Some ''x/y'') []"
  have a: "fst (addOrUpdateComponentInBitMap ?env ?selfA (componentOf ''imp/c'' [''c/x.js'']))
     = Inl (MissingComponentIdForImportedComponent ''imp/c'')"
    using imported_file_requires_matching_id
      [of "componentOf ''imp/c'' [''c/x.js'']" "[]" "fileOf ''c/x.js'' False" "[]" "''imp/c''"
          "getComponentLenient (idx ?env) (bitMap ?selfA) (Some ''imp/c'')" ?env ?selfA "[]" ?selfA
          "filesOfFound (getComponentLenient (idx ?env) (bitMap ?selfA) (Some ''imp/c''))"
          "getComponentIdByPath (idx ?env) (bitMap ?selfA) ''c/x.js''"]
    by (simp add: tree_simps indexImported_def isImported_def existingComponentOfFile_def truthy_def)
  have b: "fst (addOrUpdateComponentInBitMap ?env ?selfB (componentOf ''x/y'' [''n.js'', ''c/x.js'']))
     = Inl (IncorrectIdForImportedComponent ''imp/c'' ''x/y'')"
    using imported_file_requires_matching_id
      [of "componentOf ''x/y'' [''n.js'', ''c/x.js'']" "[fileOf ''n.js'' False]" "fileOf ''c/x.js'' False"
          "[]" "''x/y''"
          "getComponentLenient (idx ?env) (bitMap ?selfB) (Some ''x/y'')" ?env ?selfB
          "[Some (Fresh (fileOf ''n.js'' False))]" ?selfB
          "filesOfFound (getComponentLenient (idx ?env) (bitMap ?selfB) (Some ''x/y''))"
          "getComponentIdByPath (idx ?env) (bitMap ?selfB) ''c/x.js''" "''x/y''" "''imp/c''"]
    by (simp add: tree_simps indexImported_def isImported_def existingComponentOfFile_def truthy_def
          reconcileFile_def idOfFileIsDifferent_def filesOfFound_def)
  from a b show ?thesis by simp
qed

lemma reconcileFile_conflict:
  assumes "\<not> isAutoGeneratedFile (sys env) (pathJoin (sys env) (consumerPath (sys env)) (relativePath x))"
    and "getComponentIdByPath (idx env) (bitMap self) (relativePath x) = Some e"
    and "e \<noteq> []" and "e \<noteq> toString (ids env) i"
    and "\<not> isImported found (existingComponentOfFile env (bitMap self) (Some e))"
  shows "reconcileFile env (Some i) found self ff x
         = (Inr None, self\<lparr>warnings := pushWarning (warnings self) e (relativePath x)\<rparr>, ff)"
  using assms
  by (simp add: reconcileFile_def Let_def idOfFileIsDifferent_def)

lemma pushWarning_appends:
  "pushWarning w e p e = Some ((case w e of None \<Rightarrow> [] | Some ps \<Rightarrow> ps) @ [p])"
  by (simp add: pushWarning_def split: option.splits)

lemma keptFiles_append: "keptFiles ff (rs @ rs') = keptFiles ff rs @ keptFiles ff rs'"
  by (simp add: keptFiles_def)

lemma keptFiles_null: "keptFiles ff (None # rs) = keptFiles ff rs"
  by (simp add: keptFiles_def)

text \<open>
  C2. The claim fails when the record found for the component's own identifier is
  \<open>IMPORTED\<close>: the file \<open>a.js\<close> is owned by the authored record \<open>x/y\<close>, a different
  identifier, and adding it to the imported \<open>imp/c\<close> fails with
  \<open>IncorrectIdForImportedComponent\<close> instead of dropping the file with a warning.
\<close>

theorem conflicting_file_imported_target_counterexample:
  "getComponentIdByPath idx0 indexImported ''a.js'' = Some ''x/y''
   \<and> map_option origin (getComponent idx0 indexImported ''x/y'') = Some AUTHORED
   \<and> fst (addOrUpdateComponentInBitMap (envOf [] [] []) (selfOf indexImported [] (Some ''imp/c'') [])
            (componentOf ''imp/c'' [''a.js'']))
       = Inl (IncorrectIdForImportedComponent ''x/y'' ''imp/c'')"
  by (simp add: tree_simps indexImported_def addOrUpdateComponentInBitMap_def reconcileFile_def
        idOfFileIsDifferent_def isImported_def existingComponentOfFile_def filesOfFound_def)

text \<open>
  C2, amended. Take a candidate file that the \<open>map\<close> reaches, that is not skipped as
  auto-generated, and that is already owned by a different identifier, where neither
  that owner nor the record found for the component's own identifier is \<open>IMPORTED\<close>
  (the flag \<open>isImported\<close> is false). Then the callback returns \<open>null\<close> for it, so the
  filter drops it from the component; its relative path is appended to the warnings
  under the owner's identifier string; and the \<open>map\<close> goes on with the remaining files.
\<close>

theorem conflicting_file_dropped_with_warning:
  assumes pre: "mapFiles env (Some i) found self ff pre = (Inr rs, self1, ff1)"
    and auto: "\<not> isAutoGeneratedFile (sys env)
                   (pathJoin (sys env) (consumerPath (sys env)) (relativePath x))"
    and owner: "getComponentIdByPath (idx env) (bitMap self1) (relativePath x) = Some e"
    and different: "e \<noteq> [] \<and> e \<noteq> toString (ids env) i"
    and notImported: "\<not> isImported found (existingComponentOfFile env (bitMap self1) (Some e))"
  shows "mapFiles env (Some i) found self ff (pre @ x # post)
         = (case mapFiles env (Some i) found
                   (self1\<lparr>warnings := pushWarning (warnings self1) e (relativePath x)\<rparr>) ff1 post of
              (Inl err, s, f) \<Rightarrow> (Inl err, s, f)
            | (Inr rs', s, f) \<Rightarrow> (Inr (rs @ None # rs'), s, f))
       \<and> keptFiles ff2 (rs @ None # rs2) = keptFiles ff2 (rs @ rs2)
       \<and> pushWarning (warnings self1) e (relativePath x) e
         = Some ((case warnings self1 e of None \<Rightarrow> [] | Some ps \<Rightarrow> ps) @ [relativePath x])"
proof -
  have step: "reconcileFile env (Some i) found self1 ff1 x
         = (Inr None, self1\<lparr>warnings := pushWarning (warnings self1) e (relativePath x)\<rparr>, ff1)"
    using reconcileFile_conflict [OF auto owner] different notImported by simp
  have "mapFiles env (Some i) found self ff (pre @ x # post)
         = (case mapFiles env (Some i) found
                   (self1\<lparr>warnings := pushWarning (warnings self1) e (relativePath x)\<rparr>) ff1 post of
              (Inl err, s, f) \<Rightarrow> (Inl err, s, f)
            | (Inr rs', s, f) \<Rightarrow> (Inr (rs @ None # rs'), s, f))"
    by (simp add: mapFiles_append pre step split: prod.splits sum.splits)
  then show ?thesis
    by (simp add: keptFiles_append keptFiles_null pushWarning_appends)
qed

theorem conflicting_file_dropped_with_warning_witness:
  "mapFiles (envOf [] [] []) (Some ''u/v'') None (selfOf indexImported [] None []) []
      ([fileOf ''n.js'' False] @ fileOf ''a.js'' False # [fileOf ''m.js'' False])
     = (Inr ([Some (Fresh (fileOf ''n.js'' False))] @ None # [Some (Fresh (fileOf ''m.js'' False))]),
        (selfOf indexImported [] None [])\<lparr>warnings := [''x/y'' \<mapsto> [''a.js'']]\<rparr>, [])
   \<and> keptFiles [] ([Some (Fresh (fileOf ''n.js'' False))] @ None # [Some (Fresh (fileOf ''m.js'' False))])
     = [fileOf ''n.js'' False, fileOf ''m.js'' False]"
proof -
  let ?env = "envOf [] [] []"
  let ?self = "selfOf indexImported [] None []"
  have pre: "mapFiles ?env (Some ''u/v'') None ?self [] [fileOf ''n.js'' False]
             = (Inr [Some (Fresh (fileOf ''n.js'' False))], ?self, [])"
    by (simp add: tree_simps indexImported_def reconcileFile_def idOfFileIsDifferent_def
          isImported_def existingComponentOfFile_def)
  have auto: "\<not> isAutoGeneratedFile (sys ?env)
                 (pathJoin (sys ?env) (consumerPath (sys ?env)) (relativePath (fileOf ''a.js'' False)))"
    by (simp add: tree_simps)
  have owner: "getComponentIdByPath (idx ?env) (bitMap ?self) (relativePath (fileOf ''a.js'' False))
               = Some ''x/y''"
    by (simp add: tree_simps indexImported_def)
  have different: "''x/y'' \<noteq> [] \<and> ''x/y'' \<noteq> toString (ids ?env) ''u/v''"
    by (simp add: tree_simps)
  have notImported: "\<not> isImported None (existingComponentOfFile ?env (bitMap ?self) (Some ''x/y''))"
    by (simp add: tree_simps indexImported_def isImported_def existingComponentOfFile_def)
  have w: "pushWarning (warnings ?self) ''x/y'' ''a.js'' = [''x/y'' \<mapsto> [''a.js'']]"
    by (simp add: pushWarning_def tree_simps)
  have post: "mapFiles ?env (Some ''u/v'') None (?self\<lparr>warnings := [''x/y'' \<mapsto> [''a.js'']]\<rparr>) []
                [fileOf ''m.js'' False]
             = (Inr [Some (Fresh (fileOf ''m.js'' False))], ?self\<lparr>warnings := [''x/y'' \<mapsto> [''a.js'']]\<rparr>, [])"
    by (simp add: tree_simps indexImported_def reconcileFile_def idOfFileIsDifferent_def
          isImported_def existingComponentOfFile_def selfOf_def)
  show ?thesis
    using conflicting_file_dropped_with_warning [OF pre auto owner different notImported,
        of "[fileOf ''m.js'' False]" "[]" "[Some (Fresh (fileOf ''m.js'' False))]"]
    by (simp del: mapFiles.simps add: w post fileOf_simps keptFiles_def)
qed

section \<open>Persistence\<close>

lemma addToBitMap_written:
  "addToBitMap env self component = (r, self1) \<Longrightarrow> written self1 = written self"
  by (auto simp: addToBitMap_def split: prod.splits option.splits)

lemma addOrUpdate_written:
  assumes "addOrUpdateComponentInBitMap env self component = (r, self1)"
  shows "written self1 = written self"
proof -
  let ?found = "getComponentLenient (idx env) (bitMap self) (componentId component)"
  obtain r0 s0 f0 where m: "mapFiles env (componentId component) ?found self (filesOfFound ?found)
                              (files component) = (r0, s0, f0)"
    by (cases "mapFiles env (componentId component) ?found self (filesOfFound ?found) (files component)")
       auto
  have w0: "written s0 = written self"
    using mapFiles_frame [OF m] by simp
  show ?thesis
  proof (cases r0)
    case (Inl e)
    with assms m w0 show ?thesis
      by (simp add: addOrUpdateComponentInBitMap_def Let_def)
  next
    case (Inr rs)
    show ?thesis
    proof (cases "keptFiles f0 rs = []")
      case True
      with assms m w0 Inr show ?thesis
        by (simp add: addOrUpdateComponentInBitMap_def Let_def)
    next
      case False
      obtain r2 s2 where a: "addToBitMap env s0 (component\<lparr>files := keptFiles f0 rs\<rparr>) = (r2, s2)"
        by (cases "addToBitMap env s0 (component\<lparr>files := keptFiles f0 rs\<rparr>)") auto
      have "written s2 = written s0"
        using addToBitMap_written [OF a] .
      moreover have "self1 = s2"
        using assms m Inr False a
        by (auto simp: addOrUpdateComponentInBitMap_def Let_def split: sum.splits)
      ultimately show ?thesis using w0 by simp
    qed
  qed
qed

lemma reconcileComponent_written:
  assumes "reconcileComponent env self acc component = (r, self1)"
  shows "written self1 = written self"
proof (cases "files component = []")
  case True
  with assms show ?thesis by (simp add: reconcileComponent_def)
next
  case False
  obtain r0 s0 where a: "addOrUpdateComponentInBitMap env self component = (r0, s0)"
    by (cases "addOrUpdateComponentInBitMap env self component") auto
  have "self1 = s0"
    using assms False a by (auto simp: reconcileComponent_def split: sum.splits option.splits)
  then show ?thesis using addOrUpdate_written [OF a] by simp
qed

lemma reconcileEach_written:
  "reconcileEach env self acc cs = (r, self1) \<Longrightarrow> written self1 = written self"
proof (induction cs arbitrary: self acc)
  case Nil
  then show ?case by simp
next
  case (Cons c cs)
  obtain r0 s0 where a: "reconcileComponent env self acc c = (r0, s0)"
    by (cases "reconcileComponent env self acc c") auto
  have w0: "written s0 = written self"
    using reconcileComponent_written [OF a] .
  show ?case
  proof (cases r0)
    case (Inl e)
    with Cons.prems a w0 show ?thesis by simp
  next
    case (Inr acc1)
    with Cons.prems a have "reconcileEach env s0 acc1 cs = (r, self1)" by simp
    from Cons.IH [OF this] w0 show ?thesis by simp
  qed
qed

lemma addMultiple_flushedOnce: "flushedOnce self (addMultiple env self stats)"
proof (cases "addedMultiple env self stats")
  case (Inl e)
  then show ?thesis by (simp add: addMultiple_def flushedOnce_def)
next
  case (Inr added)
  show ?thesis
  proof (cases "validateNoDuplicateIds (ids env) added")
    case (Inl e)
    with Inr show ?thesis by (simp add: addMultiple_def flushedOnce_def)
  next
    case ok: (Inr u)
    obtain r0 s0 where a: "reconcileEach env self [] added = (r0, s0)"
      by (cases "reconcileEach env self [] added") auto
    have w0: "written s0 = written self"
      using reconcileEach_written [OF a] .
    show ?thesis
    proof (cases r0)
      case (Inl e)
      with Inr ok a w0 show ?thesis by (simp add: addMultiple_def flushedOnce_def)
    next
      case racc: (Inr acc)
      with Inr ok a w0 show ?thesis
        by (simp add: addMultiple_def flushedOnce_def writeAndReturn_def bitMapWrite_def Let_def)
    qed
  qed
qed

lemma addSingle_flushedOnce: "flushedOnce self (addSingle env self stats)"
proof (cases "addOneComponent env self stats")
  case (Inl e)
  then show ?thesis by (simp add: addSingle_def flushedOnce_def)
next
  case (Inr addedOne)
  obtain r0 s0 where a: "reconcileComponent env self [] addedOne = (r0, s0)"
    by (cases "reconcileComponent env self [] addedOne") auto
  have w0: "written s0 = written self"
    using reconcileComponent_written [OF a] .
  show ?thesis
  proof (cases r0)
    case (Inl e)
    with Inr a w0 show ?thesis by (simp add: addSingle_def flushedOnce_def)
  next
    case racc: (Inr acc)
    with Inr a w0 show ?thesis
      by (simp add: addSingle_def flushedOnce_def writeAndReturn_def bitMapWrite_def Let_def)
  qed
qed

lemma addResolved_flushedOnce: "flushedOnce self (addResolved env self stats)"
  by (simp add: addResolved_def addMultiple_flushedOnce addSingle_flushedOnce)

text \<open>
  C3. An invocation of \<open>add\<close> that returns has flushed the index to storage exactly
  once, and the content flushed is the index as it stands after all components were
  reconciled; an invocation that fails, at whatever step, has flushed nothing.
\<close>

theorem add_flushes_index_once_on_success_only:
  "(case fst (add env self) of
      Inl e \<Rightarrow> written (snd (add env self)) = written self
    | Inr res \<Rightarrow> written (snd (add env self)) = written self @ [bitMap (snd (add env self))])"
proof -
  let ?self = "self\<lparr>ignoreList := getIgnoreList env self\<rparr>"
  show ?thesis
  proof (cases "resolveComponentPathsStats env ?self")
    case (Inl e)
    then show ?thesis by (simp add: add_def Let_def)
  next
    case (Inr stats)
    have eq: "add env self = addResolved env ?self stats"
      using Inr by (simp add: add_def Let_def)
    have "flushedOnce ?self (addResolved env ?self stats)"
      by (rule addResolved_flushedOnce)
    then show ?thesis
      unfolding eq by (auto simp: flushedOnce_def split: sum.splits)
  qed
qed

text \<open>Unfolding every definition of the model, to run it on the small working tree.\<close>

lemmas run_defs =
  add_def getIgnoreList_def resolveComponentPathsStats_def validatePaths_def
  addResolved_def isMultipleComponents_def addMultiple_def addedMultiple_def addSingle_def
  removeTestPaths_def testToRemove_def oneComponentPathStat_def
  addOneComponent_def initialBitId_def resolvePath_def resolveFile_def resolveDirectory_def
  assignFinalBitId_def getIdAccordingToExistingComponent_def mergeTestFilesWithFiles_def
  getFilesAccordingToDsl_def addMainFileToFiles_def mainFileLoop_def mainFileStep_def
  collapseComponents_def withFiles_def removeExcludedFiles_def resolvedExcludedFiles_def
  mainFileExcluded_def validateNoDuplicateIds_def idKey_def
  reconcileComponent_def addOrUpdateComponentInBitMap_def filesOfFound_def reconcileFile_def
  idOfFileIsDifferent_def isImported_def existingComponentOfFile_def pushWarning_def keptFiles_def
  addToBitMap_def writeAndReturn_def bitMapWrite_def
  objectKeys_def keyOrder_def isArrayIndex_def isDigit_def objDelete_def
  groupby_def uniq_def unionBy_def truthy_def orElse_def fromEnd_def
  fileName_def baseName_def dirName_def

lemma add_imported_without_id:
  "fst (add (envOf [''c/x.js'', ''b.js''] [] []) (selfOf indexImported [''b.js'', ''c/x.js''] None []))
   = Inl (MissingComponentIdForImportedComponent ''c/x'')"
  by (simp add: run_defs tree_simps indexImported_def Let_def)

lemma add_with_conflict:
  "fst (add (envOf [''a.js'', ''b.js''] [] []) (selfOf indexImported [''a.js'', ''b.js''] None []))
   = Inr \<lparr>addedComponents = [\<lparr>resId = ''w/b'', resFiles = [fileOf ''b.js'' False]\<rparr>],
          resWarnings = [''x/y'' \<mapsto> [''a.js'']]\<rparr>"
  by (simp add: run_defs tree_simps indexImported_def Let_def)

text \<open>
  Two runs: the first adds \<open>b.js\<close> and leaves \<open>a.js\<close> to its owner; the second adds
  \<open>b.js\<close> in memory and then fails on \<open>c/x.js\<close>, so nothing is flushed.
\<close>

theorem add_flushes_index_once_on_success_only_witness:
  "written (snd (add (envOf [''a.js'', ''b.js''] [] []) (selfOf indexImported [''a.js'', ''b.js''] None [])))
   = [bitMap (snd (add (envOf [''a.js'', ''b.js''] [] []) (selfOf indexImported [''a.js'', ''b.js''] None [])))]
   \<and> written (snd (add (envOf [''c/x.js'', ''b.js''] [] [])
                       (selfOf indexImported [''b.js'', ''c/x.js''] None []))) = []"
  using add_flushes_index_once_on_success_only
          [of "envOf [''a.js'', ''b.js''] [] []" "selfOf indexImported [''a.js'', ''b.js''] None []"]
        add_flushes_index_once_on_success_only
          [of "envOf [''c/x.js'', ''b.js''] [] []" "selfOf indexImported [''b.js'', ''c/x.js''] None []"]
  by (simp add: add_imported_without_id add_with_conflict selfOf_simps)

section \<open>Exclusion Pass\<close>

lemma mainFileExcluded_iff:
  "mainFileExcluded se excluded c
     = (\<exists>m. mainFile c = Some m \<and> pathNormalizeToLinux se m \<in> set excluded)"
  by (cases "mainFile c") (simp_all add: mainFileExcluded_def)

lemma removeExcludedFiles_length [simp]:
  "length (removeExcludedFiles env self cs) = length cs"
  by (simp add: removeExcludedFiles_def Let_def)

lemma removeExcludedFiles_nth:
  "k < length cs \<Longrightarrow>
     removeExcludedFiles env self cs ! k
       = (if mainFileExcluded (sys env) (resolvedExcludedFiles env self cs) (cs ! k)
          then (cs ! k)\<lparr>files := []\<rparr>
          else (cs ! k)\<lparr>files := filter (\<lambda>key. relativePath key \<notin> set (resolvedExcludedFiles env self cs))
                                   (files (cs ! k))\<rparr>)"
  by (simp add: removeExcludedFiles_def Let_def)

lemma withFiles_excludes_empty: "files c = [] \<Longrightarrow> c \<notin> set (withFiles cs)"
  by (simp add: withFiles_def)

text \<open>
  C5. After the exclusion pass, a component whose (normalised) main file is among the
  files matched by the resolved exclude patterns has an empty file set, and the filter
  that follows discards it; a component whose main file is not matched loses exactly
  the files that are individually matched. Nothing else of a component changes.
\<close>

theorem exclusion_drops_component_or_matched_files:
  assumes "k < length cs"
    and "excluded = resolvedExcludedFiles env self cs"
    and "out = removeExcludedFiles env self cs ! k"
  shows "((\<exists>m. mainFile (cs ! k) = Some m \<and> pathNormalizeToLinux (sys env) m \<in> set excluded)
            \<longrightarrow> files out = [] \<and> out \<notin> set (withFiles (removeExcludedFiles env self cs)))
       \<and> (\<not> (\<exists>m. mainFile (cs ! k) = Some m \<and> pathNormalizeToLinux (sys env) m \<in> set excluded)
            \<longrightarrow> files out = filter (\<lambda>f. relativePath f \<notin> set excluded) (files (cs ! k)))
       \<and> componentId out = componentId (cs ! k) \<and> mainFile out = mainFile (cs ! k)
       \<and> rootDir out = rootDir (cs ! k)"
  using assms
  by (simp add: removeExcludedFiles_nth mainFileExcluded_iff [symmetric] withFiles_excludes_empty)

lemma selfExcluding_simps:
  "exclude (selfExcluding ex) = ex"
  "ignoreList (selfExcluding ex) = []"
  by (simp_all add: selfExcluding_def selfOf_def)

lemma groupOf_simps:
  "componentId (groupOf i ps m) = Some i"
  "files (groupOf i ps m) = map (\<lambda>p. fileOf p False) ps"
  "mainFile (groupOf i ps m) = Some m"
  "rootDir (groupOf i ps m) = None"
  by (simp_all add: groupOf_def componentOf_def)

lemma excluded_example:
  "resolvedExcludedFiles (envOf [''m.js'', ''n.js'', ''p.js'', ''q.js''] [] [])
     (selfExcluding [''m.js'', ''q.js''])
     [groupOf ''x/y'' [''m.js'', ''n.js''] ''m.js'', groupOf ''x/y'' [''p.js'', ''q.js''] ''p.js'']
   = [''m.js'', ''q.js'']"
  by (simp add: resolvedExcludedFiles_def getFilesAccordingToDsl_def uniq_def tree_simps
        selfExcluding_simps groupOf_simps)

theorem exclusion_drops_component_or_matched_files_witness:
  "files (removeExcludedFiles (envOf [''m.js'', ''n.js'', ''p.js'', ''q.js''] [] [])
            (selfExcluding [''m.js'', ''q.js''])
            [groupOf ''x/y'' [''m.js'', ''n.js''] ''m.js'', groupOf ''x/y'' [''p.js'', ''q.js''] ''p.js''] ! 0)
     = []
   \<and> files (removeExcludedFiles (envOf [''m.js'', ''n.js'', ''p.js'', ''q.js''] [] [])
            (selfExcluding [''m.js'', ''q.js''])
            [groupOf ''x/y'' [''m.js'', ''n.js''] ''m.js'', groupOf ''x/y'' [''p.js'', ''q.js''] ''p.js''] ! 1)
     = [fileOf ''p.js'' False]"
proof -
  let ?env = "envOf [''m.js'', ''n.js'', ''p.js'', ''q.js''] [] []"
  let ?self = "selfExcluding [''m.js'', ''q.js'']"
  let ?cs = "[groupOf ''x/y'' [''m.js'', ''n.js''] ''m.js'', groupOf ''x/y'' [''p.js'', ''q.js''] ''p.js'']"
  have a: "files (removeExcludedFiles ?env ?self ?cs ! 0) = []"
    using exclusion_drops_component_or_matched_files
            [of 0 ?cs "[''m.js'', ''q.js'']" ?env ?self "removeExcludedFiles ?env ?self ?cs ! 0"]
    by (simp add: excluded_example groupOf_simps tree_simps)
  have b: "files (removeExcludedFiles ?env ?self ?cs ! 1) = [fileOf ''p.js'' False]"
    using exclusion_drops_component_or_matched_files
            [of 1 ?cs "[''m.js'', ''q.js'']" ?env ?self "removeExcludedFiles ?env ?self ?cs ! 1"]
    by (simp add: excluded_example groupOf_simps tree_simps)
  from a b show ?thesis by simp
qed

section \<open>Main file resolution\<close>

lemma find_path_None: "find (\<lambda>y. relativePath y = g) fs = None \<longleftrightarrow> g \<notin> relativePath ` set fs"
  by (auto simp: find_None_iff)

lemma find_path_Some:
  "g \<in> relativePath ` set fs \<Longrightarrow> \<exists>ff. find (\<lambda>y. relativePath y = g) fs = Some ff \<and> relativePath ff = g"
  by (cases "find (\<lambda>y. relativePath y = g) fs") (auto simp: find_None_iff find_Some_iff)

lemma mainFileStep_no_match:
  assumes "substituted se pat x \<notin> relativePath ` set fs" and "\<not> fsExistsSync se (substituted se pat x)"
  shows "mainFileStep se (fs, pat) x = (fs, pat)"
proof -
  have "find (\<lambda>y. relativePath y = substituted se pat x) fs = None"
    using assms(1) by (simp add: find_path_None)
  then show ?thesis
    using assms(2) by (simp add: mainFileStep_def substituted_def Let_def)
qed

lemma mainFileStep_in_set:
  assumes "substituted se pat x \<in> relativePath ` set fs"
  shows "mainFileStep se (fs, pat) x = (fs, substituted se pat x)"
proof -
  obtain ff where "find (\<lambda>y. relativePath y = substituted se pat x) fs = Some ff"
    and "relativePath ff = substituted se pat x"
    using find_path_Some [OF assms] by blast
  then show ?thesis
    by (simp add: mainFileStep_def substituted_def Let_def)
qed

lemma mainFileStep_on_disk:
  assumes "substituted se pat x \<notin> relativePath ` set fs" and "fsExistsSync se (substituted se pat x)"
  shows "mainFileStep se (fs, pat) x
         = (fs @ [\<lparr>relativePath = substituted se pat x, test = False,
                   name = pathBasename se (substituted se pat x)\<rparr>], substituted se pat x)"
proof -
  have "find (\<lambda>y. relativePath y = substituted se pat x) fs = None"
    using assms(1) by (simp add: find_path_None)
  then show ?thesis
    using assms(2) by (simp add: mainFileStep_def substituted_def Let_def)
qed

lemma mainFileLoop_no_match:
  "\<forall>x\<in>set xs. substituted se pat x \<notin> relativePath ` set fs \<and> \<not> fsExistsSync se (substituted se pat x)
     \<Longrightarrow> foldl (mainFileStep se) (fs, pat) xs = (fs, pat)"
  by (induction xs) (simp_all add: mainFileStep_no_match)

lemma mainFileLoop_adopted:
  "g \<in> relativePath ` set fs \<Longrightarrow> \<forall>x\<in>set xs. substituted se g x = g
     \<Longrightarrow> foldl (mainFileStep se) (fs, g) xs = (fs, g)"
  by (induction xs) (simp_all add: mainFileStep_in_set)

lemma mainFileLoop_first_match:
  assumes split: "fs = pre @ x # post"
    and before: "\<forall>y\<in>set pre. substituted se pat y \<notin> relativePath ` set fs
                              \<and> \<not> fsExistsSync se (substituted se pat y)"
    and g: "g = substituted se pat x"
    and match: "g \<in> relativePath ` set fs \<or> fsExistsSync se g"
    and after: "\<forall>y\<in>set post. substituted se g y = g"
  shows "mainFileLoop se fs pat
         = (if g \<in> relativePath ` set fs then fs
            else fs @ [\<lparr>relativePath = g, test = False, name = pathBasename se g\<rparr>], g)"
proof -
  have pre: "foldl (mainFileStep se) (fs, pat) pre = (fs, pat)"
    using mainFileLoop_no_match [OF before] .
  show ?thesis
  proof (cases "g \<in> relativePath ` set fs")
    case True
    have "mainFileStep se (fs, pat) x = (fs, g)"
      using mainFileStep_in_set [of se pat x fs] True g by simp
    moreover have "foldl (mainFileStep se) (fs, g) post = (fs, g)"
      using mainFileLoop_adopted [OF True after] .
    ultimately show ?thesis
      using pre True by (simp add: mainFileLoop_def split)
  next
    case False
    let ?fs = "fs @ [\<lparr>relativePath = g, test = False, name = pathBasename se g\<rparr>]"
    have "mainFileStep se (fs, pat) x = (?fs, g)"
      using mainFileStep_on_disk [of se pat x fs] False match g by simp
    moreover have "foldl (mainFileStep se) (?fs, g) post = (?fs, g)"
      by (rule mainFileLoop_adopted [OF _ after]) simp
    ultimately show ?thesis
      using pre False by (simp add: mainFileLoop_def split)
  qed
qed

text \<open>
  C6. The claim fails in its last part: substitutions that match after a main file was
  adopted are not evaluated for appends. With \<open>a.main\<close> and \<open>b.main\<close> on disk and
  neither in the set, \<open>a.main\<close> is appended and adopted, and \<open>b.main\<close>, which the pattern
  names for \<open>b.js\<close>, is not appended.
\<close>

theorem later_substitutions_appended_counterexample:
  "substituted (sysOf [''a.js'', ''b.js'', ''a.main'', ''b.main''] [] []) ''{FILE_NAME}.main''
      (fileOf ''b.js'' False) = ''b.main''
   \<and> fsExistsSync (sysOf [''a.js'', ''b.js'', ''a.main'', ''b.main''] [] []) ''b.main''
   \<and> addMainFileToFiles (envOf [''a.js'', ''b.js'', ''a.main'', ''b.main''] [] [])
        (selfWithMain ''{FILE_NAME}.main'') [fileOf ''a.js'' False, fileOf ''b.js'' False]
      = ([fileOf ''a.js'' False, fileOf ''b.js'' False, fileOf ''a.main'' False], Some ''a.main'')"
  by (simp add: addMainFileToFiles_def mainFileLoop_def mainFileStep_def substituted_def
        selfWithMain_def tree_simps fileName_def fileOf_def baseName_def selfOf_def Let_def)

text \<open>
  C6, amended. With a pattern that bears a placeholder, the substitutions are taken
  against the files in order, and the first one that names a file already in the set
  or a file existing on disk is adopted as the main file; in the second case the file
  is also appended to the set. From then on the adopted path stands in for the
  pattern: the remaining files are substituted into it, so that, substitution leaving
  that path unchanged, the main file is not overridden and nothing more is appended.
  The method returns the adopted path, relative to the tracking root when that
  resolves to an existing file.
\<close>

theorem first_substitution_is_adopted:
  assumes main: "main self = Some pat"
    and dsl: "pat \<noteq> [] \<and> matchesRegexPattern (sys env) pat"
    and split: "fs = pre @ x # post"
    and before: "\<forall>y\<in>set pre. substituted (sys env) pat y \<notin> relativePath ` set fs
                              \<and> \<not> fsExistsSync (sys env) (substituted (sys env) pat y)"
    and g: "g = substituted (sys env) pat x"
    and match: "g \<in> relativePath ` set fs \<or> fsExistsSync (sys env) g"
    and after: "\<forall>y\<in>set post. substituted (sys env) g y = g"
  shows "addMainFileToFiles env self fs
         = (if g \<in> relativePath ` set fs then fs
            else fs @ [\<lparr>relativePath = g, test = False, name = pathBasename (sys env) g\<rparr>],
            if g = [] then None
            else if fsExistsSync (sys env)
                      (pathJoin (sys env) (consumerPath (sys env)) (getPathRelativeToConsumer (sys env) g))
                 then Some (getPathRelativeToConsumer (sys env) g)
                 else Some g)"
  using mainFileLoop_first_match [OF split before g match after] main dsl
  by (simp add: addMainFileToFiles_def Let_def)

theorem first_substitution_is_adopted_witness:
  "addMainFileToFiles (envOf [''a.js'', ''b.js'', ''c.js'', ''b.main'', ''c.main''] [] [])
      (selfWithMain ''{FILE_NAME}.main'')
      ([fileOf ''a.js'' False] @ fileOf ''b.js'' False # [fileOf ''c.js'' False])
   = ([fileOf ''a.js'' False, fileOf ''b.js'' False, fileOf ''c.js'' False, fileOf ''b.main'' False],
      Some ''b.main'')"
proof -
  let ?env = "envOf [''a.js'', ''b.js'', ''c.js'', ''b.main'', ''c.main''] [] []"
  let ?fs = "[fileOf ''a.js'' False] @ fileOf ''b.js'' False # [fileOf ''c.js'' False]"
  have main: "main (selfWithMain ''{FILE_NAME}.main'') = Some ''{FILE_NAME}.main''"
    by (simp add: selfWithMain_def)
  have dsl: "''{FILE_NAME}.main'' \<noteq> [] \<and> matchesRegexPattern (sys ?env) ''{FILE_NAME}.main''"
    by (simp add: tree_simps)
  have before: "\<forall>y\<in>set [fileOf ''a.js'' False].
                  substituted (sys ?env) ''{FILE_NAME}.main'' y \<notin> relativePath ` set ?fs
                  \<and> \<not> fsExistsSync (sys ?env) (substituted (sys ?env) ''{FILE_NAME}.main'' y)"
    by (simp add: substituted_def tree_simps fileName_def)
  have g: "''b.main'' = substituted (sys ?env) ''{FILE_NAME}.main'' (fileOf ''b.js'' False)"
    by (simp add: substituted_def tree_simps fileName_def)
  have match: "''b.main'' \<in> relativePath ` set ?fs \<or> fsExistsSync (sys ?env) ''b.main''"
    by (simp add: tree_simps)
  have after: "\<forall>y\<in>set [fileOf ''c.js'' False]. substituted (sys ?env) ''b.main'' y = ''b.main''"
    by (simp add: substituted_def tree_simps)
  show ?thesis
    using first_substitution_is_adopted [OF main dsl refl before g match after]
    by (simp add: tree_simps fileOf_def baseName_def)
qed

section \<open>Keys of objects and the files matched by patterns\<close>

lemma set_keyOrder [simp]: "set (keyOrder ks) = set ks"
  by (auto simp: keyOrder_def)

lemma length_keyOrder [simp]: "length (keyOrder ks) = length ks"
  by (simp add: keyOrder_def sum_length_filter_compl)

lemma keyOrder_single [simp]: "keyOrder [k] = [k]"
  by (simp add: keyOrder_def)

lemma keyOrder_Nil [simp]: "keyOrder [] = []"
  by (simp add: keyOrder_def)

lemma set_objectKeys: "set (objectKeys ob) = fst ` set ob"
  by (simp add: objectKeys_def)

lemma objectKeys_single [simp]: "objectKeys [(p, d)] = [p]"
  by (simp add: objectKeys_def)

lemma objectKeys_map_of: "p \<in> set (objectKeys ob) \<Longrightarrow> \<exists>d. map_of ob p = Some d"
  by (metis set_objectKeys map_of_eq_None_iff not_None_eq)

lemma set_uniqBy_id: "set (uniqBy (\<lambda>x. x) seen xs) = set xs - set seen"
  by (induction xs arbitrary: seen) auto

lemma set_uniq [simp]: "set (uniq xs) = set xs"
  by (simp add: uniq_def set_uniqBy_id)

lemma objDelete_keys: "map fst (objDelete ob k) = filter (\<lambda>x. x \<noteq> k) (map fst ob)"
  by (induction ob) (auto simp: objDelete_def)

lemma foldl_objDelete_keys:
  "map fst (foldl (\<lambda>ob t. objDelete ob (f t)) ob ts) = filter (\<lambda>x. x \<notin> f ` set ts) (map fst ob)"
proof (induction ts arbitrary: ob)
  case Nil
  show ?case by simp
next
  case (Cons t ts)
  show ?case
    by (simp add: Cons.IH objDelete_keys)
qed

lemma removeTestPaths_keys:
  "set (objectKeys (removeTestPaths env self stats))
     = set (objectKeys stats) - pathNormalize (sys env) ` set (testToRemove env self stats)"
  by (auto simp: objectKeys_def removeTestPaths_def foldl_objDelete_keys)

lemma set_getFilesAccordingToDsl:
  "set (getFilesAccordingToDsl env self fs dsls)
     = {pathNormalizeToLinux (sys env) (getPathRelativeToConsumer (sys env) m) | m dsl file.
          dsl \<in> set dsls \<and> file \<in> set fs
          \<and> m \<in> set (glob (sys env) (format (sys env) dsl (calculateFileInfo (sys env) file))
                         (IgnoreOpt (ignoreList self)))
          \<and> fsExistsSync (sys env) m}"
  by (auto simp: getFilesAccordingToDsl_def Let_def)

lemma addEach_list_all2:
  "addEach env self stats ps = Inr added
     \<Longrightarrow> list_all2 (\<lambda>p c. addOneComponent env self (oneComponentPathStat stats p) = Inr c) ps added"
proof (induction ps arbitrary: added)
  case Nil
  then show ?case by simp
next
  case (Cons p ps)
  then show ?case
    by (auto split: sum.splits)
qed

section \<open>Resolving the component paths\<close>

text \<open>
  C9. When the list of test patterns is not empty, an identifier was entered and
  globbing the component paths matches nothing, \<open>add\<close> does not throw \<open>PathsNotExist\<close>
  for the component paths: once the check of missing test files has passed, the
  globbed test patterns are validated for existence and the run goes on with them as
  \<open>componentPathsStats\<close>.
\<close>

theorem tests_stand_in_for_unmatched_component_paths:
  assumes "tests self \<noteq> []"
    and "truthy (idStr self)"
    and "concat (map (\<lambda>componentPath. glob (sys env) componentPath NoOptions) (componentPaths self)) = []"
    and "self1 = self\<lparr>ignoreList := getIgnoreList env self\<rparr>"
  shows "add env self
         = (if getMissingTestFiles (sys env) (tests self) \<noteq> []
            then (Inl (PathsNotExist (getMissingTestFiles (sys env) (tests self))), self1)
            else (case validatePaths (sys env)
                         (concat (map (\<lambda>t. glob (sys env) t NoOptions) (tests self))) of
                    Inl e \<Rightarrow> (Inl e, self1)
                  | Inr componentPathsStats \<Rightarrow> addResolved env self1 componentPathsStats))"
  using assms(1-3) unfolding assms(4)
  by (simp add: add_def resolveComponentPathsStats_def Let_def)

lemma add_tests_only:
  "fst (add (envOf [''t.js''] [] []) (selfOf [] [''gone.js''] (Some ''x/y'') [''t.js'']))
   = Inr \<lparr>addedComponents = [\<lparr>resId = ''x/y'', resFiles = [fileOf ''t.js'' True]\<rparr>],
          resWarnings = Map.empty\<rparr>"
  by (simp add: run_defs tree_simps Let_def)

theorem tests_stand_in_for_unmatched_component_paths_witness:
  "concat (map (\<lambda>componentPath. glob (sys (envOf [''t.js''] [] [])) componentPath NoOptions)
             (componentPaths (selfOf [] [''gone.js''] (Some ''x/y'') [''t.js'']))) = []
   \<and> validatePaths (sys (envOf [''t.js''] [] [])) [''t.js'']
       = (Inr [(''t.js'', False)] :: string error + bool obj)
   \<and> add (envOf [''t.js''] [] []) (selfOf [] [''gone.js''] (Some ''x/y'') [''t.js''])
       = addResolved (envOf [''t.js''] [] []) (selfOf [] [''gone.js''] (Some ''x/y'') [''t.js''])
           [(''t.js'', False)]
   \<and> fst (add (envOf [''t.js''] [] []) (selfOf [] [''gone.js''] (Some ''x/y'') [''t.js'']))
       = Inr \<lparr>addedComponents = [\<lparr>resId = ''x/y'', resFiles = [fileOf ''t.js'' True]\<rparr>],
              resWarnings = Map.empty\<rparr>"
proof -
  let ?env = "envOf [''t.js''] [] []"
  let ?self = "selfOf [] [''gone.js''] (Some ''x/y'') [''t.js'']"
  have h1: "tests ?self \<noteq> []" by (simp add: tree_simps)
  have h2: "truthy (idStr ?self)" by (simp add: tree_simps truthy_def)
  have h3: "concat (map (\<lambda>componentPath. glob (sys ?env) componentPath NoOptions) (componentPaths ?self)) = []"
    by (simp add: tree_simps)
  have v: "validatePaths (sys ?env) [''t.js''] = (Inr [(''t.js'', False)] :: string error + bool obj)"
    by (simp add: validatePaths_def tree_simps)
  have same: "?self\<lparr>ignoreList := getIgnoreList ?env ?self\<rparr> = ?self"
    by (simp add: getIgnoreList_def tree_simps objectKeys_def selfOf_def)
  have eq: "add ?env ?self = addResolved ?env ?self [(''t.js'', False)]"
    using tests_stand_in_for_unmatched_component_paths [OF h1 h2 h3 refl] v
    by (simp add: same tree_simps)
  from h3 v eq add_tests_only show ?thesis
    by blast
qed

text \<open>
  What the \<open>delete\<close> of the multiple-components branch removes. The key deleted for a
  test pattern is not an input path: it is \<open>path.normalize\<close> of a result of the matcher,
  that is, of the path relative to the tracking root, in Linux form, of an existing
  file that the pattern names for one of the resolved paths. That key \<open>k\<close> is not among
  the keys left, on which \<open>addOneComponent\<close> runs one by one. The keys of
  \<open>componentPathsStats\<close> are the globbed input paths as they were entered, so the input
  path of the test file is removed only when it is written exactly as \<open>k\<close>.
\<close>

lemma deleted_key_is_not_resolved:
  assumes "isMultipleComponents self componentPathsStats"
    and "dsl \<in> set (tests self)"
    and "source \<in> set (objectKeys componentPathsStats)"
    and "m \<in> set (glob (sys env) (format (sys env) dsl (calculateFileInfo (sys env) source))
                     (IgnoreOpt (ignoreList self)))"
    and "fsExistsSync (sys env) m"
    and "k = pathNormalize (sys env)
               (pathNormalizeToLinux (sys env) (getPathRelativeToConsumer (sys env) m))"
    and "remaining = removeTestPaths env self componentPathsStats"
  shows "k \<notin> set (objectKeys remaining)
       \<and> set (objectKeys remaining) \<subseteq> set (objectKeys componentPathsStats)
       \<and> addResolved env self componentPathsStats = addMultiple env self componentPathsStats
       \<and> (\<forall>added. addedMultiple env self componentPathsStats = Inr added \<longrightarrow>
            list_all2 (\<lambda>p c. p \<noteq> k \<and> addOneComponent env self (oneComponentPathStat remaining p) = Inr c)
              (objectKeys remaining) added)"
proof -
  have nonempty: "tests self \<noteq> []"
    using assms(2) by auto
  have "pathNormalizeToLinux (sys env) (getPathRelativeToConsumer (sys env) m)
          \<in> set (testToRemove env self componentPathsStats)"
    using assms(2-5) nonempty
    by (auto simp: testToRemove_def set_getFilesAccordingToDsl)
  then have k: "k \<in> pathNormalize (sys env) ` set (testToRemove env self componentPathsStats)"
    using assms(6) by blast
  have out: "k \<notin> set (objectKeys remaining)"
    using k by (simp add: assms(7) removeTestPaths_keys)
  have sub: "set (objectKeys remaining) \<subseteq> set (objectKeys componentPathsStats)"
    by (auto simp: assms(7) removeTestPaths_keys)
  have each: "list_all2 (\<lambda>p c. p \<noteq> k \<and> addOneComponent env self (oneComponentPathStat remaining p) = Inr c)
                (objectKeys remaining) added"
    if "addedMultiple env self componentPathsStats = Inr added" for added
  proof -
    have "list_all2 (\<lambda>p c. addOneComponent env self (oneComponentPathStat remaining p) = Inr c)
            (objectKeys remaining) added"
      using that addEach_list_all2 [of env self remaining "objectKeys remaining" added]
      by (simp add: addedMultiple_def Let_def assms(7))
    then show ?thesis
      using out by (auto simp: list_all2_conv_all_nth in_set_conv_nth)
  qed
  show ?thesis
    using out sub each assms(1) by (simp add: addResolved_def)
qed

lemma add_source_with_test:
  "fst (add (envOf [''b.js'', ''b_t.js''] [] []) (selfOf [] [''b.js'', ''b_t.js''] None [''{FILE_NAME}_t.js'']))
   = Inr \<lparr>addedComponents =
            [\<lparr>resId = ''w/b'', resFiles = [fileOf ''b_t.js'' True, fileOf ''b.js'' False]\<rparr>],
          resWarnings = Map.empty\<rparr>"
  by (simp add: run_defs tree_simps Let_def)

lemma deleted_key_is_not_resolved_example:
  "isMultipleComponents (selfOf [] [''b.js'', ''b_t.js''] None [''{FILE_NAME}_t.js''])
      [(''b.js'', False), (''b_t.js'', False)]
   \<and> objectKeys (removeTestPaths (envOf [''b.js'', ''b_t.js''] [] [])
        (selfOf [] [''b.js'', ''b_t.js''] None [''{FILE_NAME}_t.js''])
        [(''b.js'', False), (''b_t.js'', False)]) = [''b.js'']
   \<and> ''b_t.js'' \<notin> set (objectKeys (removeTestPaths (envOf [''b.js'', ''b_t.js''] [] [])
        (selfOf [] [''b.js'', ''b_t.js''] None [''{FILE_NAME}_t.js''])
        [(''b.js'', False), (''b_t.js'', False)]))
   \<and> fst (add (envOf [''b.js'', ''b_t.js''] [] [])
            (selfOf [] [''b.js'', ''b_t.js''] None [''{FILE_NAME}_t.js'']))
      = Inr \<lparr>addedComponents =
               [\<lparr>resId = ''w/b'', resFiles = [fileOf ''b_t.js'' True, fileOf ''b.js'' False]\<rparr>],
             resWarnings = Map.empty\<rparr>"
proof -
  let ?env = "envOf [''b.js'', ''b_t.js''] [] []"
  let ?self = "selfOf [] [''b.js'', ''b_t.js''] None [''{FILE_NAME}_t.js'']"
  let ?stats = "[(''b.js'', False), (''b_t.js'', False)]"
  have keys: "objectKeys ?stats = [''b.js'', ''b_t.js'']"
    by (simp add: objectKeys_def keyOrder_def isArrayIndex_def isDigit_def)
  have h1: "isMultipleComponents ?self ?stats"
    by (simp add: isMultipleComponents_def keys tree_simps truthy_def)
  have h2: "''{FILE_NAME}_t.js'' \<in> set (tests ?self)"
    by (simp add: tree_simps)
  have h3: "''b.js'' \<in> set (objectKeys ?stats)"
    by (simp add: keys)
  have h4: "''b_t.js'' \<in> set (glob (sys ?env)
              (format (sys ?env) ''{FILE_NAME}_t.js'' (calculateFileInfo (sys ?env) ''b.js''))
              (IgnoreOpt (ignoreList ?self)))"
    by (simp add: tree_simps fileName_def)
  have h5: "fsExistsSync (sys ?env) ''b_t.js''"
    by (simp add: tree_simps)
  have h6: "''b_t.js'' = pathNormalize (sys ?env)
              (pathNormalizeToLinux (sys ?env) (getPathRelativeToConsumer (sys ?env) ''b_t.js''))"
    by (simp add: tree_simps)
  have rem: "objectKeys (removeTestPaths ?env ?self ?stats) = [''b.js'']"
    by (simp add: removeTestPaths_def testToRemove_def getFilesAccordingToDsl_def keys uniq_def
          tree_simps fileName_def objDelete_def objectKeys_def keyOrder_def isArrayIndex_def isDigit_def)
  show ?thesis
    using deleted_key_is_not_resolved [OF h1 h2 h3 h4 h5 h6 refl] h1 rem
    by (simp add: add_source_with_test)
qed








section \<open>The root directory of a component\<close>

lemma resolvePath_rootDir:
  assumes "resolvePath env self stats f p = Inr (c, f')"
  shows "rootDir c = (if map_of stats p = Some True \<and> length (objectKeys stats) = 1
                      then Some (getPathRelativeToConsumer (sys env) p) else None)"
proof (cases "map_of stats p")
  case None
  with assms show ?thesis by (simp add: resolvePath_def)
next
  case (Some d)
  show ?thesis
  proof (cases d)
    case True
    with assms Some have "resolveDirectory env self stats f p = Inr (c, f')"
      by (simp add: resolvePath_def)
    then show ?thesis
      using Some True
      by (auto simp: resolveDirectory_def Let_def split: if_splits sum.splits)
  next
    case False
    with assms Some have "resolveFile env self f p = Inr (c, f')"
      by (simp add: resolvePath_def)
    then show ?thesis
      using Some False
      by (auto simp: resolveFile_def Let_def split: if_splits sum.splits)
  qed
qed

lemma resolvePaths_rootDir:
  "resolvePaths env self stats f ps = Inr (cs, f')
     \<Longrightarrow> list_all2 (\<lambda>p c. rootDir c = (if map_of stats p = Some True \<and> length (objectKeys stats) = 1
                                         then Some (getPathRelativeToConsumer (sys env) p) else None))
           ps cs"
proof (induction ps arbitrary: f cs)
  case Nil
  then show ?case by simp
next
  case (Cons p ps)
  obtain c f1 where one: "resolvePath env self stats f p = Inr (c, f1)"
    using Cons.prems by (auto split: sum.splits)
  obtain cs1 where rest: "resolvePaths env self stats f1 ps = Inr (cs1, f')" and cs: "cs = c # cs1"
    using Cons.prems one by (auto split: sum.splits)
  show ?case
    using resolvePath_rootDir [OF one] Cons.IH [OF rest] cs by simp
qed

lemma removeExcludedFiles_rootDir:
  "map rootDir (removeExcludedFiles env self cs) = map rootDir cs"
  by (simp add: removeExcludedFiles_def Let_def)

lemma image_subset_singleton: "f ` A \<subseteq> {v} \<Longrightarrow> \<forall>x\<in>A. f x = v"
  by auto

lemma collapse_rootDir_None:
  assumes "\<forall>c\<in>set cs. rootDir c = None"
  shows "rootDir (collapseComponents fid cs) = None"
proof -
  have "withFiles cs \<noteq> [] \<Longrightarrow> rootDir (hd (withFiles cs)) = None"
  proof -
    assume ne: "withFiles cs \<noteq> []"
    then have "hd (withFiles cs) \<in> set (withFiles cs)" by simp
    then have "hd (withFiles cs) \<in> set cs" by (simp add: withFiles_def)
    with assms show ?thesis by simp
  qed
  then show ?thesis
    by (auto simp: collapseComponents_def Let_def)
qed

lemma collapse_single:
  "collapseComponents fid [g]
     = (if files g = [] then \<lparr>componentId = fid, files = [], mainFile = None, rootDir = None\<rparr> else g)"
  by (simp add: collapseComponents_def withFiles_def Let_def)

lemma collapse_Nil:
  "collapseComponents fid [] = \<lparr>componentId = fid, files = [], mainFile = None, rootDir = None\<rparr>"
  by (simp add: collapseComponents_def withFiles_def Let_def)

lemma addOneComponent_Inr:
  assumes "addOneComponent env self stats = Inr c"
  obtains fid0 groups fid where "initialBitId env self = Inr fid0"
    and "resolvePaths env self stats fid0 (objectKeys stats) = Inr (groups, fid)"
    and "c = collapseComponents fid
               (if exclude self \<noteq> [] then removeExcludedFiles env self groups else groups)"
proof (cases "initialBitId env self")
  case (Inl e)
  with assms show ?thesis by (simp add: addOneComponent_def)
next
  case init: (Inr fid0)
  show ?thesis
  proof (cases "resolvePaths env self stats fid0 (objectKeys stats)")
    case (Inl e)
    with assms init show ?thesis by (simp add: addOneComponent_def)
  next
    case (Inr r)
    obtain groups fid where r: "r = (groups, fid)" by (cases r) auto
    from assms init Inr r
    have "c = collapseComponents fid
               (if exclude self \<noteq> [] then removeExcludedFiles env self groups else groups)"
      by (simp add: addOneComponent_def)
    with init Inr r that show ?thesis by simp
  qed
qed

lemma addOneComponent_rootDir:
  assumes "addOneComponent env self stats = Inr c"
  shows "rootDir c = (case objectKeys stats of
                        [p] \<Rightarrow> rootDirOf (sys env) stats p (files c)
                      | _ \<Rightarrow> None)"
proof -
  obtain fid0 groups fid where init: "initialBitId env self = Inr fid0"
    and res: "resolvePaths env self stats fid0 (objectKeys stats) = Inr (groups, fid)"
    and c: "c = collapseComponents fid
               (if exclude self \<noteq> [] then removeExcludedFiles env self groups else groups)"
    using addOneComponent_Inr [OF assms] by blast
  let ?groups = "if exclude self \<noteq> [] then removeExcludedFiles env self groups else groups"
  have roots: "map rootDir ?groups = map rootDir groups"
    by (simp add: removeExcludedFiles_rootDir)
  have len: "length ?groups = length groups"
    by simp
  have rootsSet: "rootDir ` set ?groups = rootDir ` set groups"
    using arg_cong [OF roots, of set] by simp
  note all2 = resolvePaths_rootDir [OF res]
  show ?thesis
  proof (cases "objectKeys stats")
    case Nil
    with all2 have "groups = []" by simp
    then have "?groups = []" using len by simp
    then show ?thesis using c Nil by (simp add: collapse_Nil)
  next
    case (Cons p ps)
    show ?thesis
    proof (cases ps)
      case Nil
      with Cons all2 obtain g where g: "groups = [g]"
        and rg: "rootDir g = (if map_of stats p = Some True
                              then Some (getPathRelativeToConsumer (sys env) p) else None)"
        by (auto simp: list_all2_Cons1)
      obtain g' where g': "?groups = [g']"
        using len g by (cases ?groups) auto
      have "rootDir g' = rootDir g"
        using roots g g' by simp
      then show ?thesis
        using c g' rg Cons Nil by (simp add: collapse_single rootDirOf_def)
    next
      case (Cons q qs)
      with \<open>objectKeys stats = p # ps\<close> have "length (objectKeys stats) \<noteq> 1" by simp
      with all2 have "\<forall>c\<in>set groups. rootDir c = None"
        by (auto simp: list_all2_conv_all_nth in_set_conv_nth)
      then have "rootDir ` set groups \<subseteq> {None}"
        by auto
      then have "rootDir ` set ?groups \<subseteq> {None}"
        using rootsSet by simp
      then have "\<forall>c\<in>set ?groups. rootDir c = None"
        by (rule image_subset_singleton)
      then have "rootDir c = None"
        unfolding c by (rule collapse_rootDir_None)
      then show ?thesis
        using Cons \<open>objectKeys stats = p # ps\<close> by simp
    qed
  qed
qed

lemma oneComponentPathStat_key:
  assumes "p \<in> set (objectKeys stats)"
  shows "\<exists>d. map_of stats p = Some d \<and> oneComponentPathStat stats p = [(p, d)]"
  using objectKeys_map_of [OF assms] by (auto simp: oneComponentPathStat_def)

lemma envTwoDirs_simps:
  "sys envTwoDirs = sysOf [''d/a.js'', ''e/b.js''] [''d'', ''e'']
                      [(''d/**'', [''d/a.js'']), (''e/**'', [''e/b.js''])]"
  "ids envTwoDirs = ids0"
  "idx envTwoDirs = idx0"
  by (simp_all add: envTwoDirs_def envOf_simps)

lemma two_dirs_stats:
  "resolveComponentPathsStats envTwoDirs (selfOf [] [''d'', ''e''] None [])
   = Inr [(''d'', True), (''e'', True)]"
  by (simp add: run_defs envTwoDirs_simps tree_simps Let_def)

lemma two_dirs_added:
  "addedMultiple envTwoDirs (selfOf [] [''d'', ''e''] None []) [(''d'', True), (''e'', True)]
   = Inr [dirComponent ''w/d'' ''d'' ''d/a.js'', dirComponent ''w/e'' ''e'' ''e/b.js'']"
  by (simp add: run_defs envTwoDirs_simps tree_simps dirComponent_def Let_def)

lemma two_dirs_index:
  "bitMap (snd (add envTwoDirs (selfOf [] [''d'', ''e''] None [])))
   = [(''w/d'', \<lparr>origin = AUTHORED, cmRootDir = Some ''d'', cmFiles = [fileOf ''d/a.js'' False]\<rparr>),
      (''w/e'', \<lparr>origin = AUTHORED, cmRootDir = Some ''e'', cmFiles = [fileOf ''e/b.js'' False]\<rparr>)]"
  by (simp add: run_defs envTwoDirs_simps tree_simps Let_def)

lemma one_dir_added:
  "addOneComponent envTwoDirs (selfOf [] [''d''] None []) [(''d'', True)]
   = Inr (dirComponent ''w/d'' ''d'' ''d/a.js'')"
  by (simp add: run_defs envTwoDirs_simps tree_simps dirComponent_def Let_def)

lemma two_dirs_one_id:
  "addOneComponent envTwoDirs (selfOf [] [''d'', ''e''] (Some ''x/y'') []) [(''d'', True), (''e'', True)]
   = Inr (componentOf ''x/y'' [''d/a.js'', ''e/b.js''])"
  by (simp add: run_defs envTwoDirs_simps tree_simps componentOf_def Let_def)

text \<open>
  C7. The claim fails when several directories are entered without an identifier: each
  directory is resolved by its own call of \<open>addOneComponent\<close> on that one path, and each
  component gets its directory as \<open>rootDir\<close>, although the invocation had two input
  paths. The records stored in the index carry them.
\<close>

theorem rootDir_only_for_sole_input_counterexample:
  "resolveComponentPathsStats envTwoDirs (selfOf [] [''d'', ''e''] None [])
     = Inr [(''d'', True), (''e'', True)]
   \<and> addedMultiple envTwoDirs (selfOf [] [''d'', ''e''] None []) [(''d'', True), (''e'', True)]
     = Inr [dirComponent ''w/d'' ''d'' ''d/a.js'', dirComponent ''w/e'' ''e'' ''e/b.js'']
   \<and> rootDir (dirComponent ''w/d'' ''d'' ''d/a.js'') = Some ''d''
   \<and> rootDir (dirComponent ''w/e'' ''e'' ''e/b.js'') = Some ''e''
   \<and> bitMap (snd (add envTwoDirs (selfOf [] [''d'', ''e''] None [])))
     = [(''w/d'', \<lparr>origin = AUTHORED, cmRootDir = Some ''d'', cmFiles = [fileOf ''d/a.js'' False]\<rparr>),
        (''w/e'', \<lparr>origin = AUTHORED, cmRootDir = Some ''e'', cmFiles = [fileOf ''e/b.js'' False]\<rparr>)]"
  by (simp add: two_dirs_stats two_dirs_added two_dirs_index dirComponent_def)

text \<open>
  C7, amended. \<open>rootDir\<close> is set, to the directory's path relative to the tracking
  root, exactly for a component that one call of \<open>addOneComponent\<close> resolved from a
  single path that is a directory, and that kept files. That is the case of a sole
  directory entered in the invocation (first part), and of every directory entered in
  multiple-components mode, where each path is resolved alone (second part). It is
  absent for a file input and when several paths are collapsed into one component.
\<close>

theorem rootDir_of_single_directory_component:
  "(addOneComponent env self componentPathsStats = Inr c \<longrightarrow>
      rootDir c = (case objectKeys componentPathsStats of
                     [p] \<Rightarrow> rootDirOf (sys env) componentPathsStats p (files c)
                   | _ \<Rightarrow> None))
   \<and> (addedMultiple env self componentPathsStats = Inr added \<longrightarrow>
        list_all2 (\<lambda>p c. rootDir c
                           = rootDirOf (sys env) (removeTestPaths env self componentPathsStats) p (files c))
          (objectKeys (removeTestPaths env self componentPathsStats)) added)"
proof -
  let ?remaining = "removeTestPaths env self componentPathsStats"
  have multi: "list_all2 (\<lambda>p c. rootDir c = rootDirOf (sys env) ?remaining p (files c))
                 (objectKeys ?remaining) added"
    if "addedMultiple env self componentPathsStats = Inr added"
  proof -
    have each: "list_all2 (\<lambda>p c. addOneComponent env self (oneComponentPathStat ?remaining p) = Inr c)
                  (objectKeys ?remaining) added"
      using that addEach_list_all2 [of env self ?remaining "objectKeys ?remaining" added]
      by (simp add: addedMultiple_def Let_def)
    have "rootDir c = rootDirOf (sys env) ?remaining p (files c)"
      if p: "p \<in> set (objectKeys ?remaining)"
        and one: "addOneComponent env self (oneComponentPathStat ?remaining p) = Inr c" for p c
    proof -
      obtain d where d: "map_of ?remaining p = Some d" "oneComponentPathStat ?remaining p = [(p, d)]"
        using oneComponentPathStat_key [OF p] by blast
      show ?thesis
        using addOneComponent_rootDir [OF one] d by (simp add: rootDirOf_def)
    qed
    with each show ?thesis
      by (auto simp: list_all2_conv_all_nth)
  qed
  show ?thesis
  proof (intro conjI impI)
    assume "addOneComponent env self componentPathsStats = Inr c"
    then show "rootDir c = (case objectKeys componentPathsStats of
                     [p] \<Rightarrow> rootDirOf (sys env) componentPathsStats p (files c)
                   | _ \<Rightarrow> None)"
      by (rule addOneComponent_rootDir)
  next
    assume "addedMultiple env self componentPathsStats = Inr added"
    then show "list_all2 (\<lambda>p c. rootDir c = rootDirOf (sys env) ?remaining p (files c))
                 (objectKeys ?remaining) added"
      by (rule multi)
  qed
qed

theorem rootDir_of_single_directory_component_witness:
  "addOneComponent envTwoDirs (selfOf [] [''d''] None []) [(''d'', True)]
     = Inr (dirComponent ''w/d'' ''d'' ''d/a.js'')
   \<and> rootDir (dirComponent ''w/d'' ''d'' ''d/a.js'') = Some ''d''
   \<and> addOneComponent envTwoDirs (selfOf [] [''d'', ''e''] (Some ''x/y'') []) [(''d'', True), (''e'', True)]
     = Inr (componentOf ''x/y'' [''d/a.js'', ''e/b.js''])
   \<and> rootDir (componentOf ''x/y'' [''d/a.js'', ''e/b.js'']) = None
   \<and> list_all2 (\<lambda>p c. rootDir c = Some p) [''d'', ''e'']
        [dirComponent ''w/d'' ''d'' ''d/a.js'', dirComponent ''w/e'' ''e'' ''e/b.js'']"
proof -
  let ?two = "[(''d'', True), (''e'', True)]"
  have keys: "objectKeys ?two = [''d'', ''e'']"
    by (simp add: objectKeys_def keyOrder_def isArrayIndex_def isDigit_def)
  have rem: "removeTestPaths envTwoDirs (selfOf [] [''d'', ''e''] None []) ?two = ?two"
    by (simp add: removeTestPaths_def testToRemove_def tree_simps)
  have a: "rootDir (dirComponent ''w/d'' ''d'' ''d/a.js'') = Some ''d''"
    using rootDir_of_single_directory_component
            [of envTwoDirs "selfOf [] [''d''] None []" "[(''d'', True)]"
                "dirComponent ''w/d'' ''d'' ''d/a.js''"]
    by (simp add: one_dir_added rootDirOf_def dirComponent_def envTwoDirs_simps tree_simps)
  have b: "rootDir (componentOf ''x/y'' [''d/a.js'', ''e/b.js'']) = None"
    using rootDir_of_single_directory_component
            [of envTwoDirs "selfOf [] [''d'', ''e''] (Some ''x/y'') []" ?two
                "componentOf ''x/y'' [''d/a.js'', ''e/b.js'']"]
    by (simp add: two_dirs_one_id keys)
  have c: "list_all2 (\<lambda>p c. rootDir c = Some p) [''d'', ''e'']
        [dirComponent ''w/d'' ''d'' ''d/a.js'', dirComponent ''w/e'' ''e'' ''e/b.js'']"
    using rootDir_of_single_directory_component
            [of envTwoDirs "selfOf [] [''d'', ''e''] None []" ?two _
                "[dirComponent ''w/d'' ''d'' ''d/a.js'', dirComponent ''w/e'' ''e'' ''e/b.js'']"]
    by (simp add: two_dirs_added rem keys rootDirOf_def dirComponent_def envTwoDirs_simps tree_simps)
  from a b c one_dir_added two_dirs_one_id show ?thesis by blast
qed

section \<open>Multi-Path Aggregator\<close>

lemma foldl_append_files: "foldl (\<lambda>a b. a @ files b) acc cs = acc @ concat (map files cs)"
  by (induction cs arbitrary: acc) simp_all

lemma map_of_tabulate:
  "map_of (map (\<lambda>k. (k, g k)) ks) k = (if k \<in> set ks then Some (g k) else None)"
  by (induction ks) simp_all

lemma map_of_groupby:
  "map_of (groupby f xs) k = (if k \<in> f ` set xs then Some (filter (\<lambda>x. f x = k) xs) else None)"
  by (simp add: groupby_def map_of_tabulate)

lemma objectKeys_groupby: "objectKeys (groupby f xs) = keyOrder (uniq (map f xs))"
  by (simp add: groupby_def objectKeys_def comp_def)

lemma assignOr_fields:
  "relativePath (assignOr a b) = (if relativePath a \<noteq> [] then relativePath a else relativePath b)"
  "test (assignOr a b) = (test a \<or> test b)"
  "name (assignOr a b) = (if name a \<noteq> [] then name a else name b)"
  by (simp_all add: assignOr_def)

lemma foldl_assignOr_test: "test (foldl assignOr f fs) = (test f \<or> (\<exists>x\<in>set fs. test x))"
proof (induction fs arbitrary: f)
  case Nil
  show ?case by simp
next
  case (Cons x fs)
  show ?case
    by (auto simp: Cons.IH assignOr_fields)
qed

lemma foldl_assignOr_path:
  "\<forall>x\<in>set fs. relativePath x = relativePath f \<Longrightarrow> relativePath (foldl assignOr f fs) = relativePath f"
proof (induction fs arbitrary: f)
  case Nil
  show ?case by simp
next
  case (Cons x fs)
  have same: "relativePath (assignOr f x) = relativePath f"
    using Cons.prems by (simp add: assignOr_fields)
  have "\<forall>y\<in>set fs. relativePath y = relativePath (assignOr f x)"
    using Cons.prems same by simp
  from Cons.IH [OF this] same show ?case by simp
qed

lemma firstTruthy_Cons: "firstTruthy (s # xs) = (if s \<noteq> [] then s else firstTruthy xs)"
  by (simp add: firstTruthy_def)

lemma foldl_assignOr_name:
  "name (foldl assignOr f fs) = (if name f \<noteq> [] then name f else firstTruthy (map name fs))"
proof (induction fs arbitrary: f)
  case Nil
  show ?case by (simp add: firstTruthy_def)
next
  case (Cons x fs)
  show ?case
    by (simp add: Cons.IH assignOr_fields firstTruthy_Cons)
qed

lemma assignwith_group:
  assumes "g \<noteq> []" and "\<forall>x\<in>set g. relativePath x = k"
  shows "relativePath (assignwith g) = k"
    and "test (assignwith g) = (\<exists>x\<in>set g. test x)"
    and "name (assignwith g) = firstTruthy (map name g)"
proof -
  obtain f fs where g: "g = f # fs" using assms(1) by (cases g) auto
  show "relativePath (assignwith g) = k"
    using assms(2) g foldl_assignOr_path [of fs f] by simp
  show "test (assignwith g) = (\<exists>x\<in>set g. test x)"
    using g by (simp add: foldl_assignOr_test)
  show "name (assignwith g) = firstTruthy (map name g)"
    using g by (simp add: foldl_assignOr_name firstTruthy_Cons)
qed

text \<open>The entry the collapse makes for the path \<open>k\<close> out of all the entries \<open>fs\<close>.\<close>

lemma collapse_many:
  assumes "2 \<le> length (withFiles cs)"
  shows "collapseComponents fid cs
         = \<lparr>componentId = fid,
            files = map (\<lambda>key. assignwith (filter (\<lambda>x. relativePath x = key)
                                            (concat (map files (withFiles cs)))))
                      (keyOrder (uniq (map relativePath (concat (map files (withFiles cs)))))),
            mainFile = mainFile (hd (withFiles cs)),
            rootDir = rootDir (hd (withFiles cs))\<rparr>"
proof -
  let ?all = "concat (map files (withFiles cs))"
  have "map (\<lambda>key. assignwith (case map_of (groupby relativePath ?all) key of None \<Rightarrow> [] | Some g \<Rightarrow> g))
          (keyOrder (uniq (map relativePath ?all)))
        = map (\<lambda>key. assignwith (filter (\<lambda>x. relativePath x = key) ?all))
          (keyOrder (uniq (map relativePath ?all)))"
    by (rule map_cong) (auto simp: map_of_groupby)
  moreover have "withFiles cs \<noteq> []" "length (withFiles cs) \<noteq> Suc 0"
    using assms by auto
  ultimately show ?thesis
    by (simp add: collapseComponents_def Let_def foldl_append_files objectKeys_groupby)
qed

lemma collapse_many_files:
  assumes "2 \<le> length (withFiles cs)" and "every = concat (map files (withFiles cs))"
    and "c = collapseComponents fid cs"
  shows "map relativePath (files c) = keyOrder (uniq (map relativePath every))"
    and "\<forall>f\<in>set (files c).
           test f = (\<exists>x\<in>set every. relativePath x = relativePath f \<and> test x)
           \<and> name f = firstTruthy (map name (filter (\<lambda>x. relativePath x = relativePath f) every))"
proof -
  have entry: "relativePath (assignwith (filter (\<lambda>x. relativePath x = key) every)) = key
               \<and> test (assignwith (filter (\<lambda>x. relativePath x = key) every))
                   = (\<exists>x\<in>set every. relativePath x = key \<and> test x)
               \<and> name (assignwith (filter (\<lambda>x. relativePath x = key) every))
                   = firstTruthy (map name (filter (\<lambda>x. relativePath x = key) every))"
    if "key \<in> relativePath ` set every" for key
  proof -
    let ?g = "filter (\<lambda>x. relativePath x = key) every"
    have ne: "?g \<noteq> []" using that by (auto simp: filter_empty_conv)
    have same: "\<forall>x\<in>set ?g. relativePath x = key" by simp
    show ?thesis
      using assignwith_group [OF ne same] by auto
  qed
  have fs: "files c = map (\<lambda>key. assignwith (filter (\<lambda>x. relativePath x = key) every))
                        (keyOrder (uniq (map relativePath every)))"
    using collapse_many [OF assms(1), of fid] assms(2,3) by simp
  have "map (\<lambda>key. relativePath (assignwith (filter (\<lambda>x. relativePath x = key) every)))
          (keyOrder (uniq (map relativePath every)))
        = map (\<lambda>key. key) (keyOrder (uniq (map relativePath every)))"
    by (rule map_cong) (auto simp: entry)
  then show "map relativePath (files c) = keyOrder (uniq (map relativePath every))"
    unfolding fs by (simp add: comp_def)
  show "\<forall>f\<in>set (files c).
           test f = (\<exists>x\<in>set every. relativePath x = relativePath f \<and> test x)
           \<and> name f = firstTruthy (map name (filter (\<lambda>x. relativePath x = relativePath f) every))"
    unfolding fs using entry by auto
qed

lemma collapse_none:
  "withFiles cs = [] \<Longrightarrow>
     collapseComponents fid cs = \<lparr>componentId = fid, files = [], mainFile = None, rootDir = None\<rparr>"
  by (simp add: collapseComponents_def Let_def)

lemma collapse_one: "withFiles cs = [g] \<Longrightarrow> collapseComponents fid cs = g"
  by (simp add: collapseComponents_def Let_def)

lemma envSourceAndTest_simps:
  "sys envSourceAndTest = sysOf [''b_t.js'', ''b.js''] [] []"
  "ids envSourceAndTest = ids0"
  "idx envSourceAndTest = idx0"
  by (simp_all add: envSourceAndTest_def envOf_simps)

lemma source_and_test_groups:
  "resolvePaths envSourceAndTest (selfSourceAndTest (Some ''x/y''))
     [(''b_t.js'', False), (''b.js'', False)] (Some ''x/y'') [''b_t.js'', ''b.js'']
   = Inr ([groupWith ''x/y'' [fileOf ''b_t.js'' False],
           groupWith ''x/y'' [fileOf ''b_t.js'' True, fileOf ''b.js'' False]], Some ''x/y'')"
  by (simp add: run_defs envSourceAndTest_simps selfSourceAndTest_def tree_simps groupWith_def Let_def)

lemma source_and_test_collapsed:
  "addOneComponent envSourceAndTest (selfSourceAndTest (Some ''x/y''))
     [(''b_t.js'', False), (''b.js'', False)]
   = Inr (groupWith ''x/y'' [fileOf ''b_t.js'' True, fileOf ''b.js'' False])"
  by (simp add: run_defs envSourceAndTest_simps selfSourceAndTest_def tree_simps groupWith_def
        assignOr_def Let_def)

text \<open>
  C4. The claim fails on "first value per path wins". With the identifier \<open>x/y\<close> and
  the paths \<open>b_t.js\<close> and \<open>b.js\<close>, the first group holds \<open>b_t.js\<close> as a source file
  (\<open>test = False\<close>) and the second group holds it as the test of \<open>b.js\<close>
  (\<open>test = True\<close>); the collapsed component holds it with \<open>test = True\<close>, which is not
  the first group's value.
\<close>

theorem first_value_per_path_wins_counterexample:
  "\<not> isMultipleComponents (selfSourceAndTest (Some ''x/y'')) [(''b_t.js'', False), (''b.js'', False)]
   \<and> resolvePaths envSourceAndTest (selfSourceAndTest (Some ''x/y''))
        [(''b_t.js'', False), (''b.js'', False)] (Some ''x/y'') [''b_t.js'', ''b.js'']
      = Inr ([groupWith ''x/y'' [fileOf ''b_t.js'' False],
              groupWith ''x/y'' [fileOf ''b_t.js'' True, fileOf ''b.js'' False]], Some ''x/y'')
   \<and> addOneComponent envSourceAndTest (selfSourceAndTest (Some ''x/y''))
        [(''b_t.js'', False), (''b.js'', False)]
      = Inr (groupWith ''x/y'' [fileOf ''b_t.js'' True, fileOf ''b.js'' False])
   \<and> fileOf ''b_t.js'' True \<noteq> fileOf ''b_t.js'' False"
proof -
  have single: "\<not> isMultipleComponents (selfSourceAndTest (Some ''x/y''))
                    [(''b_t.js'', False), (''b.js'', False)]"
    by (simp add: isMultipleComponents_def selfSourceAndTest_def tree_simps truthy_def)
  have differ: "fileOf ''b_t.js'' True \<noteq> fileOf ''b_t.js'' False"
    by (simp add: fileOf_def)
  from single source_and_test_groups source_and_test_collapsed differ show ?thesis
    by blast
qed

text \<open>
  C4, amended. With more than one resolved input path and no identifier entered, each
  path that remains after the removal of the test-pattern matches is resolved as its
  own component. Otherwise all paths are resolved into one component: the groups that
  the exclusion pass left without files are discarded; when none remains the component
  has no files; when one remains it is the component; when several remain the file set
  has one entry per distinct relative path, in the order of the keys, merged property
  by property with the first truthy value (so \<open>test\<close> is true as soon as one group
  holds the file as a test, and \<open>name\<close> is the first non-empty name), with \<open>mainFile\<close>
  and \<open>rootDir\<close> taken from the first remaining group.
\<close>

theorem paths_stay_apart_or_collapse:
  assumes "remaining = removeTestPaths env self componentPathsStats"
  shows "(isMultipleComponents self componentPathsStats \<longrightarrow>
            addResolved env self componentPathsStats = addMultiple env self componentPathsStats
            \<and> (\<forall>added. addedMultiple env self componentPathsStats = Inr added \<longrightarrow>
                  list_all2 (\<lambda>p c. addOneComponent env self (oneComponentPathStat remaining p) = Inr c)
                    (objectKeys remaining) added))
       \<and> (\<not> isMultipleComponents self componentPathsStats \<longrightarrow>
            addResolved env self componentPathsStats = addSingle env self componentPathsStats)
       \<and> (addOneComponent env self componentPathsStats = Inr c \<longrightarrow>
            (\<exists>fid0 groups fid kept every.
               initialBitId env self = Inr fid0
               \<and> resolvePaths env self componentPathsStats fid0 (objectKeys componentPathsStats)
                   = Inr (groups, fid)
               \<and> kept = withFiles (if exclude self \<noteq> [] then removeExcludedFiles env self groups
                                    else groups)
               \<and> every = concat (map files kept)
               \<and> (kept = [] \<longrightarrow>
                    c = \<lparr>componentId = fid, files = [], mainFile = None, rootDir = None\<rparr>)
               \<and> (\<forall>g. kept = [g] \<longrightarrow> c = g)
               \<and> (2 \<le> length kept \<longrightarrow>
                    componentId c = fid
                    \<and> map relativePath (files c) = keyOrder (uniq (map relativePath every))
                    \<and> (\<forall>f\<in>set (files c).
                          test f = (\<exists>x\<in>set every. relativePath x = relativePath f \<and> test x)
                          \<and> name f = firstTruthy (map name (filter (\<lambda>x. relativePath x = relativePath f)
                                                                every)))
                    \<and> mainFile c = mainFile (hd kept)
                    \<and> rootDir c = rootDir (hd kept))))"
proof (intro conjI impI allI)
  assume "isMultipleComponents self componentPathsStats"
  then show "addResolved env self componentPathsStats = addMultiple env self componentPathsStats"
    by (simp add: addResolved_def)
next
  fix added
  assume "addedMultiple env self componentPathsStats = Inr added"
  then show "list_all2 (\<lambda>p c. addOneComponent env self (oneComponentPathStat remaining p) = Inr c)
               (objectKeys remaining) added"
    using addEach_list_all2 [of env self remaining "objectKeys remaining" added]
    by (simp add: addedMultiple_def Let_def assms)
next
  assume "\<not> isMultipleComponents self componentPathsStats"
  then show "addResolved env self componentPathsStats = addSingle env self componentPathsStats"
    by (simp add: addResolved_def)
next
  assume one: "addOneComponent env self componentPathsStats = Inr c"
  obtain fid0 groups fid where init: "initialBitId env self = Inr fid0"
    and res: "resolvePaths env self componentPathsStats fid0 (objectKeys componentPathsStats)
              = Inr (groups, fid)"
    and c: "c = collapseComponents fid
               (if exclude self \<noteq> [] then removeExcludedFiles env self groups else groups)"
    using addOneComponent_Inr [OF one] by blast
  define gs where "gs = (if exclude self \<noteq> [] then removeExcludedFiles env self groups else groups)"
  define kept where "kept = withFiles gs"
  define every where "every = concat (map files kept)"
  have c': "c = collapseComponents fid gs"
    using c by (simp add: gs_def)
  have none: "c = \<lparr>componentId = fid, files = [], mainFile = None, rootDir = None\<rparr>" if "kept = []"
    using that c' collapse_none [of gs fid] by (simp add: kept_def)
  have single: "c = g" if "kept = [g]" for g
    using that c' collapse_one [of gs g fid] by (simp add: kept_def)
  have many: "componentId c = fid
              \<and> map relativePath (files c) = keyOrder (uniq (map relativePath every))
              \<and> (\<forall>f\<in>set (files c).
                    test f = (\<exists>x\<in>set every. relativePath x = relativePath f \<and> test x)
                    \<and> name f = firstTruthy (map name (filter (\<lambda>x. relativePath x = relativePath f)
                                                          every)))
              \<and> mainFile c = mainFile (hd kept)
              \<and> rootDir c = rootDir (hd kept)"
    if two: "2 \<le> length kept"
  proof -
    have two': "2 \<le> length (withFiles gs)" using two by (simp add: kept_def)
    have ev: "every = concat (map files (withFiles gs))" by (simp add: every_def kept_def)
    have "componentId c = fid \<and> mainFile c = mainFile (hd kept) \<and> rootDir c = rootDir (hd kept)"
      using collapse_many [OF two', of fid] c' by (simp add: kept_def)
    then show ?thesis
      using collapse_many_files [OF two' ev c'] by simp
  qed
  show "\<exists>fid0 groups fid kept every.
               initialBitId env self = Inr fid0
               \<and> resolvePaths env self componentPathsStats fid0 (objectKeys componentPathsStats)
                   = Inr (groups, fid)
               \<and> kept = withFiles (if exclude self \<noteq> [] then removeExcludedFiles env self groups
                                    else groups)
               \<and> every = concat (map files kept)
               \<and> (kept = [] \<longrightarrow>
                    c = \<lparr>componentId = fid, files = [], mainFile = None, rootDir = None\<rparr>)
               \<and> (\<forall>g. kept = [g] \<longrightarrow> c = g)
               \<and> (2 \<le> length kept \<longrightarrow>
                    componentId c = fid
                    \<and> map relativePath (files c) = keyOrder (uniq (map relativePath every))
                    \<and> (\<forall>f\<in>set (files c).
                          test f = (\<exists>x\<in>set every. relativePath x = relativePath f \<and> test x)
                          \<and> name f = firstTruthy (map name (filter (\<lambda>x. relativePath x = relativePath f)
                                                                every)))
                    \<and> mainFile c = mainFile (hd kept)
                    \<and> rootDir c = rootDir (hd kept))"
    apply (rule exI [of _ fid0], rule exI [of _ groups], rule exI [of _ fid])
    apply (rule exI [of _ kept], rule exI [of _ every])
    using init res none single many
    by (simp add: kept_def gs_def every_def)
qed

theorem paths_stay_apart_or_collapse_witness:
  "addResolved envSourceAndTest (selfSourceAndTest None) [(''b_t.js'', False), (''b.js'', False)]
     = addMultiple envSourceAndTest (selfSourceAndTest None) [(''b_t.js'', False), (''b.js'', False)]
   \<and> addResolved envSourceAndTest (selfSourceAndTest (Some ''x/y''))
        [(''b_t.js'', False), (''b.js'', False)]
     = addSingle envSourceAndTest (selfSourceAndTest (Some ''x/y''))
        [(''b_t.js'', False), (''b.js'', False)]
   \<and> addOneComponent envSourceAndTest (selfSourceAndTest (Some ''x/y''))
        [(''b_t.js'', False), (''b.js'', False)]
     = Inr (groupWith ''x/y'' [fileOf ''b_t.js'' True, fileOf ''b.js'' False])
   \<and> map relativePath (files (groupWith ''x/y'' [fileOf ''b_t.js'' True, fileOf ''b.js'' False]))
     = keyOrder (uniq (map relativePath
         (concat (map files [groupWith ''x/y'' [fileOf ''b_t.js'' False],
                             groupWith ''x/y'' [fileOf ''b_t.js'' True, fileOf ''b.js'' False]]))))"
proof -
  let ?stats = "[(''b_t.js'', False), (''b.js'', False)]"
  let ?c = "groupWith ''x/y'' [fileOf ''b_t.js'' True, fileOf ''b.js'' False]"
  let ?groups = "[groupWith ''x/y'' [fileOf ''b_t.js'' False],
                  groupWith ''x/y'' [fileOf ''b_t.js'' True, fileOf ''b.js'' False]]"
  have keys: "objectKeys ?stats = [''b_t.js'', ''b.js'']"
    by (simp add: objectKeys_def keyOrder_def isArrayIndex_def isDigit_def)
  have multi: "isMultipleComponents (selfSourceAndTest None) ?stats"
    by (simp add: isMultipleComponents_def keys selfSourceAndTest_def tree_simps truthy_def)
  have single: "\<not> isMultipleComponents (selfSourceAndTest (Some ''x/y'')) ?stats"
    by (simp add: isMultipleComponents_def selfSourceAndTest_def tree_simps truthy_def)
  have a: "addResolved envSourceAndTest (selfSourceAndTest None) ?stats
           = addMultiple envSourceAndTest (selfSourceAndTest None) ?stats"
    using paths_stay_apart_or_collapse [OF refl, of "selfSourceAndTest None" ?stats envSourceAndTest] multi
    by blast
  note th = paths_stay_apart_or_collapse
              [OF refl, of "selfSourceAndTest (Some ''x/y'')" ?stats envSourceAndTest ?c]
  have b: "addResolved envSourceAndTest (selfSourceAndTest (Some ''x/y'')) ?stats
           = addSingle envSourceAndTest (selfSourceAndTest (Some ''x/y'')) ?stats"
    using th single by blast
  have init: "initialBitId envSourceAndTest (selfSourceAndTest (Some ''x/y'')) = Inr (Some ''x/y'')"
    by (simp add: initialBitId_def getIdAccordingToExistingComponent_def envSourceAndTest_simps
          selfSourceAndTest_def tree_simps)
  have noex: "exclude (selfSourceAndTest (Some ''x/y'')) = []"
    by (simp add: selfSourceAndTest_def tree_simps)
  have kept: "withFiles ?groups = ?groups"
    by (simp add: withFiles_def groupWith_def)
  from th source_and_test_collapsed
  obtain fid0 groups fid kept every where
    i: "initialBitId envSourceAndTest (selfSourceAndTest (Some ''x/y'')) = Inr fid0"
    and r: "resolvePaths envSourceAndTest (selfSourceAndTest (Some ''x/y'')) ?stats fid0
              (objectKeys ?stats) = Inr (groups, fid)"
    and k: "kept = withFiles (if exclude (selfSourceAndTest (Some ''x/y'')) \<noteq> []
                              then removeExcludedFiles envSourceAndTest
                                     (selfSourceAndTest (Some ''x/y'')) groups
                              else groups)"
    and e: "every = concat (map files kept)"
    and m: "2 \<le> length kept \<longrightarrow>
              map relativePath (files ?c) = keyOrder (uniq (map relativePath every))"
    by blast
  have "fid0 = Some ''x/y''" using i init by simp
  then have "groups = ?groups" using r source_and_test_groups keys by simp
  then have "kept = ?groups" using k noex kept by simp
  then have c: "map relativePath (files ?c)
                = keyOrder (uniq (map relativePath (concat (map files ?groups))))"
    using m e by simp
  from a b c source_and_test_collapsed show ?thesis by blast
qed

end
